theory Spec2Isabelle
  imports Main "HOL-Library.Word" "HOL-Library.Sublist" "HOL-Library.Code_Target_Nat"
begin

section \<open>The loader's SQL execution layer (dm/loader/db.go)\<close>

text \<open>
  The file embeds \<^verbatim>\<open>dm/loader/db.go\<close>: the connection object \<^verbatim>\<open>DBConn\<close>, its query and
  execute paths with their retry closures, the connection reset and the construction of
  the fixed pool of connections.

  Go pointers that may be nil are \<open>option\<close> values. A Go function returning several
  values returns a tuple. What the code does to the outside (calls of the database
  primitives, metrics, logs, waits) is appended, in order, to a trace of events; what the
  outside answers is given by an environment of functions of the history so far. A run that
  does not return (a runtime panic, the process exit of \<^verbatim>\<open>Logger.Fatal\<close>, a fatal error
  of the runtime) is the value \<open>Inl\<close> of a sum.
\<close>

subsection \<open>Data\<close>

type_synonym BaseConn = nat  \<comment> \<open>identity of a \<^verbatim>\<open>*conn.BaseConn\<close>\<close>
type_synonym BaseDB = nat  \<comment> \<open>identity of a \<^verbatim>\<open>*conn.BaseDB\<close>\<close>
type_synonym DBConfig = string  \<comment> \<open>\<^verbatim>\<open>config.DBConfig\<close>, the descriptor of the target database\<close>
type_synonym Duration = nat  \<comment> \<open>\<^verbatim>\<open>time.Duration\<close>, in nanoseconds\<close>
type_synonym GoInt = "64 word"  \<comment> \<open>the Go type \<^verbatim>\<open>int\<close>: 64 bits, read signed (\<open>sint\<close>)\<close>

datatype arg = ArgNil | ArgInt int | ArgString string  \<comment> \<open>a statement argument, \<^verbatim>\<open>interface{}\<close>\<close>

datatype ErrScope = ScopeNotSet | ScopeDownstream

datatype error =
    ErrDBUnExpect string  \<comment> \<open>\<^verbatim>\<open>terror.ErrDBUnExpect.Generate(msg)\<close>\<close>
  | MySQLError "16 word" string  \<comment> \<open>\<^verbatim>\<open>&mysql.MySQLError{Number, Message}\<close>\<close>
  | WithScope error ErrScope  \<comment> \<open>\<^verbatim>\<open>terror.WithScope(err, scope)\<close>\<close>
  | OtherError string  \<comment> \<open>any other error value (driver, network, context), by its text\<close>

datatype abort =
    Panic  \<comment> \<open>a Go runtime panic\<close>
  | Exit  \<comment> \<open>the process ends: \<^verbatim>\<open>Logger.Fatal\<close>, or a fatal error of the Go runtime\<close>

datatype logMethod = LWarn | LError | LFatal | LErrorFilterContextCanceled

datatype field =
    FInt string nat  \<comment> \<open>\<^verbatim>\<open>zap.Int(key, n)\<close>\<close>
  | FDuration string Duration  \<comment> \<open>\<^verbatim>\<open>zap.Duration(key, d)\<close>\<close>
  | FString string string  \<comment> \<open>\<^verbatim>\<open>zap.String(key, s)\<close>\<close>
  | FError error  \<comment> \<open>\<^verbatim>\<open>log.ShortError(err)\<close>, \<^verbatim>\<open>zap.Error(err)\<close>\<close>

datatype event =
    EvQuerySQL "BaseConn option" string "arg list"
      \<comment> \<open>\<^verbatim>\<open>baseConn.QuerySQL(ctx, query, args...)\<close>\<close>
  | EvExecuteSQL "BaseConn option" string "string list" "arg list list"
      \<comment> \<open>\<^verbatim>\<open>baseConn.ExecuteSQL(ctx, stmtHistogram, name, queries, args...)\<close>\<close>
  | EvGetDownstreamDB DBConfig  \<comment> \<open>\<^verbatim>\<open>conn.GetDownstreamDB(&cfg.To)\<close>\<close>
  | EvGetBaseConn "BaseDB option"  \<comment> \<open>\<^verbatim>\<open>baseDB.GetBaseConn(ctx)\<close>\<close>
  | EvForceCloseConn "BaseDB option" "BaseConn option"  \<comment> \<open>\<^verbatim>\<open>baseDB.ForceCloseConn(baseConn)\<close>\<close>
  | EvClose "BaseDB option"  \<comment> \<open>\<^verbatim>\<open>baseDB.Close()\<close>\<close>
  | EvObserve string string Duration
      \<comment> \<open>\<^verbatim>\<open>queryHistogram.WithLabelValues(name, sourceID).Observe(ds)\<close>\<close>
  | EvInc string string
      \<comment> \<open>\<^verbatim>\<open>tidbExecutionErrorCounter.WithLabelValues(name, sourceID).Inc()\<close>\<close>
  | EvLog logMethod string "field list"  \<comment> \<open>\<^verbatim>\<open>ctx.L().Warn(msg, fields...)\<close> and the like\<close>
  | EvWait Duration  \<comment> \<open>a completed wait between two attempts\<close>

type_synonym trace = "event list"

text \<open>
  \<^verbatim>\<open>*tcontext.Context\<close>: the logger (whose output is the \<open>EvLog\<close> events) and the
  \<^verbatim>\<open>context.Context\<close>. \<open>ctxErr tr\<close> is \<open>None\<close> while the context is live after the
  history \<open>tr\<close>, and the context's error once its \<^verbatim>\<open>Done\<close> channel is closed.
\<close>

record Context =
  ctxErr :: "trace \<Rightarrow> error option"

text \<open>\<^verbatim>\<open>*sql.Rows\<close>; \<open>rowsErr\<close> is what \<^verbatim>\<open>Rows.Err()\<close> returns.\<close>

record Rows =
  rowsId :: nat
  rowsErr :: "error option"

text \<open>
  \<^verbatim>\<open>DBConn\<close>. The field \<open>resetBaseConnFn\<close> is a function value (\<open>None\<close> is the nil
  function): given the context, the history and the current handle, it returns the new
  handle, the error and the events it performed.
\<close>

record DBConn =
  name :: string
  sourceID :: string
  baseConn :: "BaseConn option"
  resetBaseConnFn ::
    "(Context \<Rightarrow> trace \<Rightarrow> BaseConn option \<Rightarrow> (BaseConn option \<times> error option) \<times> trace) option"

text \<open>
  The state a call works on: the \<^verbatim>\<open>DBConn\<close> object behind the receiver pointer, which
  \<^verbatim>\<open>resetConn\<close> mutates, and the trace.
\<close>

record state =
  dbconn :: DBConn
  trace :: trace

record SubTaskConfig =
  To :: DBConfig

text \<open>
  The environment: the functions this file calls and that are defined elsewhere. Each takes
  the history before the call. \<open>failpoint\<close> is the value the failpoint
  \<^verbatim>\<open>LoadExecCreateTableFailed\<close> is armed with (\<open>None\<close>: not armed, as in a production
  build); \<open>elapsed\<close> is what \<^verbatim>\<open>time.Since(startTime)\<close> measures for the attempt whose
  history is given; \<open>mallocgc tr n\<close> tells whether the runtime, after the history
  \<open>tr\<close>, has the memory for an object of \<open>n\<close> bytes.
\<close>

record env =
  IsConnectionError :: "error \<Rightarrow> bool"  \<comment> \<open>\<^verbatim>\<open>retry.IsConnectionError\<close>\<close>
  IsRetryableError :: "error \<Rightarrow> bool"  \<comment> \<open>\<^verbatim>\<open>dbutil.IsRetryableError\<close>\<close>
  QuerySQL :: "trace \<Rightarrow> BaseConn option \<Rightarrow> string \<Rightarrow> arg list \<Rightarrow> Rows option \<times> error option"
  ExecuteSQL ::
    "trace \<Rightarrow> BaseConn option \<Rightarrow> string \<Rightarrow> string list \<Rightarrow> arg list list \<Rightarrow> error option"
  elapsed :: "trace \<Rightarrow> Duration"
  failpoint :: "string option"
  GetDownstreamDB :: "trace \<Rightarrow> DBConfig \<Rightarrow> BaseDB option \<times> error option"
  GetBaseConn :: "trace \<Rightarrow> BaseDB option \<Rightarrow> BaseConn option \<times> error option"
  ForceCloseConn :: "trace \<Rightarrow> BaseDB option \<Rightarrow> BaseConn option \<Rightarrow> error option"
  Close :: "trace \<Rightarrow> BaseDB option \<Rightarrow> error option"
  mallocgc :: "trace \<Rightarrow> nat \<Rightarrow> bool"

definition Second :: Duration where
  "Second = 1000000000"

definition emit :: "event list \<Rightarrow> state \<Rightarrow> state" where
  "emit evs s = s\<lparr>trace := trace s @ evs\<rparr>"

subsection \<open>Library functions of Go used by the file\<close>

text \<open>
  \<^verbatim>\<open>strconv.ParseUint(s, 10, 16)\<close>: the value of a non-empty string of decimal digits that
  fits 16 bits; \<open>None\<close> when the call returns an error (empty string, a character that
  is not a digit, a value above 65535).
\<close>

definition digitVal :: "char \<Rightarrow> nat option" where
  "digitVal c = (if c \<in> set ''0123456789'' then Some (of_char c - 48) else None)"

fun parseDigits :: "nat \<Rightarrow> string \<Rightarrow> nat option" where
  "parseDigits n [] = Some n"
| "parseDigits n (c # cs) =
     (case digitVal c of
        None \<Rightarrow> None
      | Some d \<Rightarrow> (if 10 * n + d > 65535 then None else parseDigits (10 * n + d) cs))"

definition ParseUint_10_16 :: "string \<Rightarrow> nat option" where
  "ParseUint_10_16 s = (if s = [] then None else parseDigits 0 s)"

text \<open>\<^verbatim>\<open>strings.Contains(s, substr)\<close>: \<open>substr\<close> occurs in \<open>s\<close> as a contiguous run.\<close>

definition Contains :: "string \<Rightarrow> string \<Rightarrow> bool" where
  "Contains s substr = sublist substr s"

text \<open>
  \<^verbatim>\<open>make([]*DBConn, 0, cap)\<close>, that is \<^verbatim>\<open>runtime.makeslice\<close> for elements of pointer size:
  it panics (\<^verbatim>\<open>makeslice: cap out of range\<close>) when \<open>cap\<close> is negative or when the
  \<open>ptrSize * cap\<close> bytes asked for exceed \<open>maxAlloc\<close>; otherwise it allocates them, and
  the process ends with the fatal error \<^verbatim>\<open>out of memory\<close> when the runtime cannot.
  \<open>ptrSize\<close> and \<open>maxAlloc\<close> are those of the 64-bit platforms with 48 bits of heap
  address (linux/amd64, linux/arm64). The result is \<open>None\<close> when the slice is made.
\<close>

definition ptrSize :: int where
  "ptrSize = 8"

definition maxAlloc :: int where
  "maxAlloc = 2 ^ 48"

definition makeslice :: "env \<Rightarrow> trace \<Rightarrow> int \<Rightarrow> abort option" where
  "makeslice env tr cap =
     (if cap < 0 \<or> ptrSize * cap > maxAlloc then Some Panic
      else if \<not> mallocgc env tr (nat (ptrSize * cap)) then Some Exit
      else None)"

subsection \<open>The retry strategy\<close>

text \<open>
  Modelled from the spec: the types \<^verbatim>\<open>retry.Params\<close> and \<^verbatim>\<open>retry.BackoffStrategy\<close> of
  package \<^verbatim>\<open>dm/pkg/retry\<close>, which is not among the sources. The fields and the two
  strategies are the ones \<^verbatim>\<open>db.go\<close> fills in; \<open>IsRetryableFn\<close> returns a single
  \<^verbatim>\<open>bool\<close>, and works on the state because the closures of \<^verbatim>\<open>db.go\<close> reset the
  connection, count and log.
\<close>

datatype BackoffStrategy = Stable | LinearIncrease

record Params =
  RetryCount :: nat
  FirstRetryDuration :: Duration
  BackoffStrategy :: BackoffStrategy
  IsRetryableFn :: "nat \<Rightarrow> error \<Rightarrow> state \<Rightarrow> (abort + bool) \<times> state"

type_synonym OperateFunc = "state \<Rightarrow> (abort + (Rows option \<times> error option)) \<times> state"

text \<open>
  Modelled from the spec: the delay before the next attempt, part of
  \<^verbatim>\<open>ApplyRetryStrategy\<close>. \<^emph>\<open>Stable\<close> is a constant delay; with \<^emph>\<open>LinearIncrease\<close> the
  delay grows proportionally with the attempt index, the first one being
  \<open>FirstRetryDuration\<close>. \<open>i\<close> is the index of the failed attempt, from 0.
\<close>

definition retryDuration :: "Params \<Rightarrow> nat \<Rightarrow> Duration" where
  "retryDuration params i =
     (case BackoffStrategy params of
        LinearIncrease \<Rightarrow> (i + 1) * FirstRetryDuration params
      | Stable \<Rightarrow> FirstRetryDuration params)"

text \<open>
  Modelled from the spec: \<^verbatim>\<open>BaseConn.ApplyRetryStrategy(ctx, params, operateFn)\<close> of package
  \<^verbatim>\<open>dm/pkg/conn\<close>, which is not among the sources. It makes at most \<open>RetryCount\<close>
  attempts. An attempt without error ends the operation with its result. After a failed
  attempt the decision function is asked: if it says no, the operation ends with the error
  of that attempt; if it says yes, the loop waits \<open>retryDuration\<close> and goes on while
  budget remains, and a context found cancelled at that wait ends the operation with the
  context's error. \<open>retryLoop n i\<close> is the loop at attempt index \<open>i\<close> with \<open>n\<close>
  attempts left; it returns the result, the attempt index and the error.
\<close>

fun retryLoop ::
  "Context \<Rightarrow> Params \<Rightarrow> OperateFunc \<Rightarrow> nat \<Rightarrow> nat \<Rightarrow> Rows option \<Rightarrow> error option \<Rightarrow> state
    \<Rightarrow> (abort + (Rows option \<times> nat \<times> error option)) \<times> state" where
  "retryLoop ctx params operateFn 0 i ret err s = (Inr (ret, i, err), s)"
| "retryLoop ctx params operateFn (Suc n) i ret err s =
     (case operateFn s of
        (Inl a, s1) \<Rightarrow> (Inl a, s1)
      | (Inr (ret', None), s1) \<Rightarrow> (Inr (ret', i, None), s1)
      | (Inr (ret', Some e), s1) \<Rightarrow>
          (case IsRetryableFn params i e s1 of
             (Inl a, s2) \<Rightarrow> (Inl a, s2)
           | (Inr False, s2) \<Rightarrow> (Inr (ret', i, Some e), s2)
           | (Inr True, s2) \<Rightarrow>
               (case ctxErr ctx (trace s2) of
                  Some ce \<Rightarrow> (Inr (ret', i, Some ce), s2)
                | None \<Rightarrow>
                    retryLoop ctx params operateFn n (Suc i) ret' (Some e)
                      (emit [EvWait (retryDuration params i)] s2))))"

text \<open>
  Modelled from the spec: the entry of \<^verbatim>\<open>ApplyRetryStrategy\<close>, the loop above started at
  attempt index 0 with the whole budget \<open>RetryCount\<close> and no result yet.
\<close>

definition ApplyRetryStrategy ::
  "Context \<Rightarrow> Params \<Rightarrow> OperateFunc \<Rightarrow> state
    \<Rightarrow> (abort + (Rows option \<times> nat \<times> error option)) \<times> state" where
  "ApplyRetryStrategy ctx params operateFn s =
     retryLoop ctx params operateFn (RetryCount params) 0 None None s"

subsection \<open>resetConn\<close>

text \<open>
  \<^verbatim>\<open>resetConn\<close> calls the connection's \<open>resetBaseConnFn\<close> on the current handle; calling
  the nil function panics. Only when the error is nil is the handle replaced.
\<close>

definition resetConn :: "Context \<Rightarrow> state \<Rightarrow> (abort + error option) \<times> state" where
  "resetConn tctx s =
     (case resetBaseConnFn (dbconn s) of
        None \<Rightarrow> (Inl Panic, s)
      | Some f \<Rightarrow>
          (case f tctx (trace s) (baseConn (dbconn s)) of
             ((baseConn', Some err), evs) \<Rightarrow> (Inr (Some err), emit evs s)
           | ((baseConn', None), evs) \<Rightarrow>
               (Inr None, emit evs (s\<lparr>dbconn := (dbconn s)\<lparr>baseConn := baseConn'\<rparr>\<rparr>))))"

subsection \<open>querySQL\<close>

text \<open>
  The closure \<open>IsRetryableFn\<close> of \<^verbatim>\<open>querySQL\<close>. The error of a failed reset is assigned
  to the closure's own parameter and logged; the closure returns \<^verbatim>\<open>false\<close>. The string
  fields of the log entries (the truncated statement and arguments) are left out.
\<close>

definition querySQL_IsRetryableFn ::
  "env \<Rightarrow> Context \<Rightarrow> nat \<Rightarrow> error \<Rightarrow> state \<Rightarrow> (abort + bool) \<times> state" where
  "querySQL_IsRetryableFn env ctx retryTime err s =
     (if IsConnectionError env err then
        (case resetConn ctx s of
           (Inl a, s') \<Rightarrow> (Inl a, s')
         | (Inr (Some err'), s') \<Rightarrow>
             (Inr False,
              emit [EvLog LError ''reset connection failed'' [FInt ''retry'' retryTime, FError err']] s')
         | (Inr None, s') \<Rightarrow> (Inr True, s'))
      else if IsRetryableError env err then
        (Inr True, emit [EvLog LWarn ''query statement'' [FInt ''retry'' retryTime, FError err]] s)
      else (Inr False, s))"

definition querySQL_params :: "env \<Rightarrow> Context \<Rightarrow> Params" where
  "querySQL_params env ctx =
     \<lparr>RetryCount = 10,
      FirstRetryDuration = Second,
      BackoffStrategy = Stable,
      IsRetryableFn = querySQL_IsRetryableFn env ctx\<rparr>"

text \<open>
  One attempt of \<^verbatim>\<open>querySQL\<close>. \<^verbatim>\<open>ret.Err()\<close> on a nil \<^verbatim>\<open>*sql.Rows\<close> panics. The
  histogram is observed, and a slow query logged, only past both error checks.
\<close>

definition querySQL_operateFn :: "env \<Rightarrow> string \<Rightarrow> arg list \<Rightarrow> OperateFunc" where
  "querySQL_operateFn env query args s =
     (let c = dbconn s;
          s1 = emit [EvQuerySQL (baseConn c) query args] s
      in case QuerySQL env (trace s) (baseConn c) query args of
           (ret, Some err) \<Rightarrow> (Inr (ret, Some err), s1)
         | (None, None) \<Rightarrow> (Inl Panic, s1)
         | (Some rows, None) \<Rightarrow>
             (case rowsErr rows of
                Some rerr \<Rightarrow> (Inr (Some rows, Some rerr), s1)
              | None \<Rightarrow>
                  (let cost = elapsed env (trace s1);
                       s2 = emit [EvObserve (name c) (sourceID c) cost] s1;
                       s3 = (if cost > Second
                             then emit [EvLog LWarn ''query statement too slow''
                                          [FDuration ''cost time'' cost]] s2
                             else s2)
                   in (Inr (Some rows, None), s3))))"

text \<open>
  \<^verbatim>\<open>querySQL\<close> on the receiver \<open>conn\<close> (\<open>None\<close> is the nil pointer). It returns the
  rows and the error, the receiver's object as the call leaves it, and the trace.
\<close>

definition querySQL ::
  "env \<Rightarrow> Context \<Rightarrow> DBConn option \<Rightarrow> string \<Rightarrow> arg list \<Rightarrow> trace
    \<Rightarrow> (abort + (Rows option \<times> error option)) \<times> DBConn option \<times> trace" where
  "querySQL env ctx conn query args tr =
     (case conn of
        None \<Rightarrow> (Inr (None, Some (ErrDBUnExpect ''database connection not valid'')), conn, tr)
      | Some c \<Rightarrow>
          if baseConn c = None
          then (Inr (None, Some (ErrDBUnExpect ''database connection not valid'')), conn, tr)
          else
            (case ApplyRetryStrategy ctx (querySQL_params env ctx)
                    (querySQL_operateFn env query args) \<lparr>dbconn = c, trace = tr\<rparr> of
               (Inl a, s) \<Rightarrow> (Inl a, Some (dbconn s), trace s)
             | (Inr (ret, _, Some err), s) \<Rightarrow>
                 (Inr (None, Some err), Some (dbconn s),
                  trace s @ [EvLog LErrorFilterContextCanceled ''query statement failed after retry''
                               [FError err]])
             | (Inr (None, _, None), s) \<Rightarrow> (Inl Panic, Some (dbconn s), trace s)
             | (Inr (Some rows, _, None), s) \<Rightarrow>
                 (Inr (Some rows, None), Some (dbconn s), trace s)))"

subsection \<open>executeSQL\<close>

text \<open>
  The closure \<open>IsRetryableFn\<close> of \<^verbatim>\<open>executeSQL\<close>: it increments the execution error
  counter, then does what the closure of \<^verbatim>\<open>querySQL\<close> does.
\<close>

definition executeSQL_IsRetryableFn ::
  "env \<Rightarrow> Context \<Rightarrow> nat \<Rightarrow> error \<Rightarrow> state \<Rightarrow> (abort + bool) \<times> state" where
  "executeSQL_IsRetryableFn env ctx retryTime err s0 =
     (let s = emit [EvInc (name (dbconn s0)) (sourceID (dbconn s0))] s0
      in if IsConnectionError env err then
           (case resetConn ctx s of
              (Inl a, s') \<Rightarrow> (Inl a, s')
            | (Inr (Some err'), s') \<Rightarrow>
                (Inr False,
                 emit [EvLog LError ''reset connection failed''
                         [FInt ''retry'' retryTime, FError err']] s')
            | (Inr None, s') \<Rightarrow> (Inr True, s'))
         else if IsRetryableError env err then
           (Inr True,
            emit [EvLog LWarn ''execute statements'' [FInt ''retry'' retryTime, FError err]] s)
         else (Inr False, s))"

definition executeSQL_params :: "env \<Rightarrow> Context \<Rightarrow> Params" where
  "executeSQL_params env ctx =
     \<lparr>RetryCount = 10,
      FirstRetryDuration = 2 * Second,
      BackoffStrategy = LinearIncrease,
      IsRetryableFn = executeSQL_IsRetryableFn env ctx\<rparr>"

text \<open>
  The body of \<^verbatim>\<open>failpoint.Inject("LoadExecCreateTableFailed", ...)\<close>, run when the
  failpoint is armed with \<open>val\<close>: a value that does not parse ends the process; otherwise
  the error of a batch of exactly one statement that contains \<^verbatim>\<open>CREATE TABLE\<close> is replaced.
\<close>

definition LoadExecCreateTableFailed ::
  "string \<Rightarrow> string list \<Rightarrow> error option \<Rightarrow> state \<Rightarrow> (abort + error option) \<times> state" where
  "LoadExecCreateTableFailed val queries err s =
     (case ParseUint_10_16 val of
        None \<Rightarrow>
          (Inl Exit,
           emit [EvLog LFatal ''failpoint LoadExecCreateTableFailed's value is invalid''
                   [FString ''val'' val]] s)
      | Some errCode \<Rightarrow>
          if length queries = 1 \<and> Contains (queries ! 0) ''CREATE TABLE''
          then
            (let err' = MySQLError (of_nat errCode) []
             in (Inr (Some err'),
                 emit [EvLog LWarn ''executeSQL failed''
                         [FString ''failpoint'' ''LoadExecCreateTableFailed'', FError err']] s))
          else (Inr err, s))"

text \<open>One attempt of \<^verbatim>\<open>executeSQL\<close>; it returns no result value, only the error.\<close>

definition executeSQL_operateFn :: "env \<Rightarrow> string list \<Rightarrow> arg list list \<Rightarrow> OperateFunc" where
  "executeSQL_operateFn env queries args s =
     (let c = dbconn s;
          s1 = emit [EvExecuteSQL (baseConn c) (name c) queries args] s;
          err0 = ExecuteSQL env (trace s) (baseConn c) (name c) queries args
      in case (case failpoint env of
                 None \<Rightarrow> (Inr err0, s1)
               | Some val \<Rightarrow> LoadExecCreateTableFailed val queries err0 s1) of
           (Inl a, s2) \<Rightarrow> (Inl a, s2)
         | (Inr (Some err), s2) \<Rightarrow> (Inr (None, Some err), s2)
         | (Inr None, s2) \<Rightarrow>
             (let cost = elapsed env (trace s2);
                  s3 = (if cost > Second
                        then emit [EvLog LWarn ''execute transaction too slow''
                                     [FDuration ''cost time'' cost]] s2
                        else s2)
              in (Inr (None, None), s3)))"

text \<open>
  \<^verbatim>\<open>executeSQL\<close> on the receiver \<open>conn\<close>. The empty statement list is tested first, the
  receiver second. It returns the error, the receiver's object as the call leaves it, and
  the trace.
\<close>

definition executeSQL ::
  "env \<Rightarrow> Context \<Rightarrow> DBConn option \<Rightarrow> string list \<Rightarrow> arg list list \<Rightarrow> trace
    \<Rightarrow> (abort + error option) \<times> DBConn option \<times> trace" where
  "executeSQL env ctx conn queries args tr =
     (if length queries = 0 then (Inr None, conn, tr)
      else
        (case conn of
           None \<Rightarrow> (Inr (Some (ErrDBUnExpect ''database connection not valid'')), conn, tr)
         | Some c \<Rightarrow>
             if baseConn c = None
             then (Inr (Some (ErrDBUnExpect ''database connection not valid'')), conn, tr)
             else
               (case ApplyRetryStrategy ctx (executeSQL_params env ctx)
                       (executeSQL_operateFn env queries args) \<lparr>dbconn = c, trace = tr\<rparr> of
                  (Inl a, s) \<Rightarrow> (Inl a, Some (dbconn s), trace s)
                | (Inr (_, _, Some err), s) \<Rightarrow>
                    (Inr (Some err), Some (dbconn s),
                     trace s @ [EvLog LErrorFilterContextCanceled
                                  ''execute statements failed after retry'' [FError err]])
                | (Inr (_, _, None), s) \<Rightarrow> (Inr None, Some (dbconn s), trace s))))"

subsection \<open>createConns\<close>

text \<open>
  The closure \<open>resetBaseConnFn\<close> that \<^verbatim>\<open>createConns\<close> gives every connection: it
  force-closes the given handle through the shared \<open>baseDB\<close>, logs a failure to do so, and
  returns what \<^verbatim>\<open>baseDB.GetBaseConn\<close> returns. Its result carries the events performed.
\<close>

definition createConns_resetBaseConnFn ::
  "env \<Rightarrow> BaseDB option
    \<Rightarrow> Context \<Rightarrow> trace \<Rightarrow> BaseConn option \<Rightarrow> (BaseConn option \<times> error option) \<times> trace" where
  "createConns_resetBaseConnFn env baseDB tctx tr baseConn' =
     (let evs1 = [EvForceCloseConn baseDB baseConn'];
          evs2 = (case ForceCloseConn env tr baseDB baseConn' of
                    Some err \<Rightarrow> evs1 @ [EvLog LWarn ''failed to close baseConn in reset'' []]
                  | None \<Rightarrow> evs1)
      in (GetBaseConn env (tr @ evs2) baseDB, evs2 @ [EvGetBaseConn baseDB]))"

text \<open>
  The loop of \<^verbatim>\<open>createConns\<close> with \<open>k\<close> connections still to create and \<open>conns\<close>
  created so far. A handle that cannot be obtained closes \<open>baseDB\<close> and returns no
  connection.
\<close>

fun createConns_loop ::
  "env \<Rightarrow> Context \<Rightarrow> BaseDB option \<Rightarrow> string \<Rightarrow> string \<Rightarrow> nat \<Rightarrow> DBConn list \<Rightarrow> trace
    \<Rightarrow> (BaseDB option \<times> DBConn list \<times> error option) \<times> trace" where
  "createConns_loop env tctx baseDB nm sid 0 conns tr = ((baseDB, conns, None), tr)"
| "createConns_loop env tctx baseDB nm sid (Suc k) conns tr =
     (let tr1 = tr @ [EvGetBaseConn baseDB]
      in case GetBaseConn env tr baseDB of
           (baseConn', Some err) \<Rightarrow>
             (let tr2 = tr1 @ [EvClose baseDB];
                  tr3 = (case Close env tr1 baseDB of
                           Some terr \<Rightarrow> tr2 @ [EvLog LError ''failed to close baseDB'' [FError terr]]
                         | None \<Rightarrow> tr2)
              in ((None, [], Some (WithScope err ScopeDownstream)), tr3))
         | (baseConn', None) \<Rightarrow>
             createConns_loop env tctx baseDB nm sid k
               (conns @ [\<lparr>name = nm, sourceID = sid, baseConn = baseConn',
                          resetBaseConnFn = Some (createConns_resetBaseConnFn env baseDB)\<rparr>])
               tr1)"

text \<open>
  \<^verbatim>\<open>createConns\<close>; \<open>workerCount\<close> is a Go \<^verbatim>\<open>int\<close>. Once the base handle is obtained,
  \<^verbatim>\<open>make\<close> is called with the capacity \<open>workerCount\<close>, and a call that panics or ends
  the process leaves the function there. It returns the base handle, the connections (the
  nil slice is \<open>[]\<close>) and the error.
\<close>

definition createConns ::
  "env \<Rightarrow> Context \<Rightarrow> SubTaskConfig \<Rightarrow> string \<Rightarrow> string \<Rightarrow> GoInt \<Rightarrow> trace
    \<Rightarrow> (abort + (BaseDB option \<times> DBConn list \<times> error option)) \<times> trace" where
  "createConns env tctx cfg nm sid workerCount tr =
     (let tr1 = tr @ [EvGetDownstreamDB (To cfg)]
      in case GetDownstreamDB env tr (To cfg) of
           (baseDB, Some err) \<Rightarrow> (Inr (None, [], Some (WithScope err ScopeDownstream)), tr1)
         | (baseDB, None) \<Rightarrow>
             (case makeslice env tr1 (sint workerCount) of
                Some a \<Rightarrow> (Inl a, tr1)
              | None \<Rightarrow>
                  (case createConns_loop env tctx baseDB nm sid (nat (sint workerCount)) []
                          tr1 of
                     (r, tr2) \<Rightarrow> (Inr r, tr2))))"

subsection \<open>Concrete environments\<close>

text \<open>
  Concrete inputs on which the theorems below are instantiated. In \<open>envOK\<close> every call
  of the outside succeeds and the runtime has the memory asked for; the connection error is the driver's \<^verbatim>\<open>invalid connection\<close>, the
  retryable error is MySQL's lock wait timeout (1205).
\<close>

definition ctxLive :: Context where
  "ctxLive = \<lparr>ctxErr = (\<lambda>tr. None)\<rparr>"

definition ctxCancelled :: Context where
  "ctxCancelled = \<lparr>ctxErr = (\<lambda>tr. Some (OtherError ''context canceled''))\<rparr>"

definition errBadConn :: error where
  "errBadConn = OtherError ''invalid connection''"

definition errLockWait :: error where
  "errLockWait = MySQLError 1205 ''Lock wait timeout exceeded''"

definition errResetFailed :: error where
  "errResetFailed = OtherError ''dial tcp: connection refused''"

definition rowsOK :: Rows where
  "rowsOK = \<lparr>rowsId = 0, rowsErr = None\<rparr>"

definition rowsDeferred :: Rows where
  "rowsDeferred = \<lparr>rowsId = 0, rowsErr = Some errLockWait\<rparr>"

definition envOK :: env where
  "envOK =
     \<lparr>IsConnectionError = (\<lambda>e. e = errBadConn),
      IsRetryableError = (\<lambda>e. e = errLockWait),
      QuerySQL = (\<lambda>tr h q a. (Some rowsOK, None)),
      ExecuteSQL = (\<lambda>tr h n qs a. None),
      elapsed = (\<lambda>tr. 0),
      failpoint = None,
      GetDownstreamDB = (\<lambda>tr cfg. (Some 0, None)),
      GetBaseConn = (\<lambda>tr db. (Some (length tr), None)),
      ForceCloseConn = (\<lambda>tr db h. None),
      Close = (\<lambda>tr db. None),
      mallocgc = (\<lambda>tr n. True)\<rparr>"

text \<open>A connection whose reset always succeeds with handle 8, and one whose reset fails.\<close>

definition resetOK ::
  "Context \<Rightarrow> trace \<Rightarrow> BaseConn option \<Rightarrow> (BaseConn option \<times> error option) \<times> trace" where
  "resetOK tctx tr h = ((Some 8, None), [EvForceCloseConn (Some 0) h, EvGetBaseConn (Some 0)])"

definition resetFails ::
  "Context \<Rightarrow> trace \<Rightarrow> BaseConn option \<Rightarrow> (BaseConn option \<times> error option) \<times> trace" where
  "resetFails tctx tr h =
     ((None, Some errResetFailed), [EvForceCloseConn (Some 0) h, EvGetBaseConn (Some 0)])"

definition connOK :: DBConn where
  "connOK = \<lparr>name = ''worker'', sourceID = ''mysql-01'', baseConn = Some 7,
             resetBaseConnFn = Some resetOK\<rparr>"

definition connNoReset :: DBConn where
  "connNoReset = \<lparr>name = ''worker'', sourceID = ''mysql-01'', baseConn = Some 7,
                  resetBaseConnFn = Some resetFails\<rparr>"

definition connNil :: DBConn where
  "connNil = \<lparr>name = ''worker'', sourceID = ''mysql-01'', baseConn = None,
              resetBaseConnFn = Some resetOK\<rparr>"

text \<open>The first connection that \<^verbatim>\<open>createConns\<close> builds in \<open>envOK\<close>.\<close>

definition connPool :: DBConn where
  "connPool = \<lparr>name = ''worker'', sourceID = ''mysql-01'', baseConn = Some 1,
               resetBaseConnFn = Some (createConns_resetBaseConnFn envOK (Some 0))\<rparr>"

subsection \<open>Observations on traces\<close>

text \<open>
  An attempt of an operation is one call of the database primitive; \<open>attempts tr\<close> counts
  them in a trace, and \<open>incs nm sid tr\<close> counts the increments of the execution error
  counter labelled \<open>(nm, sid)\<close>.
\<close>

fun isAttempt :: "event \<Rightarrow> bool" where
  "isAttempt (EvQuerySQL h q a) = True"
| "isAttempt (EvExecuteSQL h n qs a) = True"
| "isAttempt ev = False"

definition attempts :: "trace \<Rightarrow> nat" where
  "attempts tr = length (filter isAttempt tr)"

definition incs :: "string \<Rightarrow> string \<Rightarrow> trace \<Rightarrow> nat" where
  "incs nm sid tr = count_list tr (EvInc nm sid)"

fun isObserve :: "event \<Rightarrow> bool" where
  "isObserve (EvObserve nm sid d) = True"
| "isObserve ev = False"

text \<open>Environments in which a statement fails, used as concrete inputs below.\<close>

definition envBadConn :: env where
  "envBadConn =
     envOK\<lparr>QuerySQL := (\<lambda>tr h q a. (None, Some errBadConn)),
           ExecuteSQL := (\<lambda>tr h n qs a. Some errBadConn)\<rparr>"

definition envLockWait :: env where
  "envLockWait =
     envOK\<lparr>QuerySQL := (\<lambda>tr h q a. (None, Some errLockWait)),
           ExecuteSQL := (\<lambda>tr h n qs a. Some errLockWait)\<rparr>"

definition envDeferred :: env where
  "envDeferred = envOK\<lparr>QuerySQL := (\<lambda>tr h q a. (Some rowsDeferred, None))\<rparr>"

definition envFailpoint :: env where
  "envFailpoint = envOK\<lparr>failpoint := Some ''1213''\<rparr>"

definition envSecondConnFails :: env where
  "envSecondConnFails =
     envOK\<lparr>GetBaseConn :=
             (\<lambda>tr db. if length tr < 2 then (Some 1, None) else (None, Some errResetFailed))\<rparr>"

text \<open>
  \<open>notFailed res\<close> is 1 when the retry loop ended on an attempt that did not fail: the
  attempt succeeded, or the process exited in it.
\<close>

fun notFailed :: "abort + (Rows option \<times> nat \<times> error option) \<Rightarrow> nat" where
  "notFailed (Inl Exit) = 1"
| "notFailed (Inl Panic) = 0"
| "notFailed (Inr (r, j, None)) = 1"
| "notFailed (Inr (r, j, Some e)) = 0"

definition envFlaky :: env where
  "envFlaky =
     envOK\<lparr>ExecuteSQL :=
             (\<lambda>tr h n qs a. if attempts tr < 2 then Some errLockWait else None)\<rparr>"

text \<open>\<open>waits tr\<close> lists, in order, the durations of the waits in a trace.\<close>

fun waitOf :: "event \<Rightarrow> Duration list" where
  "waitOf (EvWait d) = [d]"
| "waitOf ev = []"

definition waits :: "trace \<Rightarrow> Duration list" where
  "waits tr = concat (map waitOf tr)"

definition envFlakyQuery :: env where
  "envFlakyQuery =
     envOK\<lparr>QuerySQL :=
             (\<lambda>tr h q a. if attempts tr < 2 then (None, Some errLockWait)
                          else (Some rowsOK, None))\<rparr>"

section \<open>Properties\<close>

subsection \<open>The guards of querySQL and executeSQL\<close>

text \<open>
  C7. \<^verbatim>\<open>executeSQL\<close> with an empty statement list succeeds at once, whatever the receiver:
  it returns no error, leaves the connection object as it is, and leaves the trace as it
  is, so that no database call is made, no metric is touched and nothing is logged.
\<close>

theorem executeSQL_empty_succeeds:
  "executeSQL env ctx conn [] args tr = (Inr None, conn, tr)"
  by (simp add: executeSQL_def)

text \<open>
  C3, as amended. On a receiver that is nil or whose handle is nil, \<^verbatim>\<open>querySQL\<close> fails for
  every statement, and \<^verbatim>\<open>executeSQL\<close> fails for every non-empty statement list, with the
  error \<^verbatim>\<open>ErrDBUnExpect\<close> "database connection not valid", the connection object and the
  trace untouched (no database call). For the empty statement list \<^verbatim>\<open>executeSQL\<close> returns
  no error, because the length of the list is tested before the receiver.
\<close>

theorem invalid_connection_fails:
  assumes "case conn of None \<Rightarrow> True | Some c \<Rightarrow> baseConn c = None"
  shows "querySQL env ctx conn query args tr =
           (Inr (None, Some (ErrDBUnExpect ''database connection not valid'')), conn, tr)
         \<and> (queries \<noteq> [] \<longrightarrow>
              executeSQL env ctx conn queries eargs tr =
                (Inr (Some (ErrDBUnExpect ''database connection not valid'')), conn, tr))
         \<and> executeSQL env ctx conn [] eargs tr = (Inr None, conn, tr)"
  using assms by (auto simp: querySQL_def executeSQL_def split: option.splits)

theorem invalid_connection_fails_witness:
  "querySQL envOK ctxLive (Some connNil) ''SELECT 1'' [] [] =
     (Inr (None, Some (ErrDBUnExpect ''database connection not valid'')), Some connNil, [])
   \<and> executeSQL envOK ctxLive (Some connNil) [''INSERT INTO t VALUES (1)''] [] [] =
     (Inr (Some (ErrDBUnExpect ''database connection not valid'')), Some connNil, [])
   \<and> executeSQL envOK ctxLive (Some connNil) [] [] [] = (Inr None, Some connNil, [])"
  using invalid_connection_fails
    [of "Some connNil" envOK ctxLive "''SELECT 1''" "[]" "[]" "[''INSERT INTO t VALUES (1)'']" "[]"]
  by (simp add: connNil_def)

text \<open>
  C3 as stated fails on the empty statement list: on the nil receiver
  \<^verbatim>\<open>executeSQL\<close> returns no error.
\<close>

theorem executeSQL_nil_empty_counterexample:
  "fst (executeSQL envOK ctxLive None [] [] []) = Inr None
   \<and> fst (executeSQL envOK ctxLive None [] [] [])
       \<noteq> Inr (Some (ErrDBUnExpect ''database connection not valid''))"
  by (simp add: executeSQL_def)

subsection \<open>resetConn\<close>

text \<open>
  C6. Let the connection's recovery function \<open>f\<close>, called on the current handle, return
  the handle \<open>h'\<close>, the error \<open>err\<close> and the events \<open>evs\<close>. If \<open>err\<close> is nil,
  \<^verbatim>\<open>resetConn\<close> returns nil and the connection holds \<open>h'\<close>, its name, source id and
  recovery function unchanged. If \<open>err\<close> is an error, \<^verbatim>\<open>resetConn\<close> returns it and the
  connection object is exactly as before. In both cases the trace grows by \<open>evs\<close> only.
\<close>

theorem resetConn_swaps_or_keeps:
  assumes "resetBaseConnFn (dbconn s) = Some f"
    and "f tctx (trace s) (baseConn (dbconn s)) = ((h', err), evs)"
  shows "(err = None \<longrightarrow>
            fst (resetConn tctx s) = Inr None
          \<and> baseConn (dbconn (snd (resetConn tctx s))) = h'
          \<and> name (dbconn (snd (resetConn tctx s))) = name (dbconn s)
          \<and> sourceID (dbconn (snd (resetConn tctx s))) = sourceID (dbconn s)
          \<and> resetBaseConnFn (dbconn (snd (resetConn tctx s))) = resetBaseConnFn (dbconn s)
          \<and> dbconn (snd (resetConn tctx s)) = (dbconn s)\<lparr>baseConn := h'\<rparr>)
       \<and> (\<forall>e. err = Some e \<longrightarrow>
            fst (resetConn tctx s) = Inr (Some e)
          \<and> dbconn (snd (resetConn tctx s)) = dbconn s)
       \<and> trace (snd (resetConn tctx s)) = trace s @ evs"
  using assms by (cases err) (simp_all add: resetConn_def emit_def)

theorem resetConn_swaps_or_keeps_witness:
  "fst (resetConn ctxLive \<lparr>dbconn = connOK, trace = []\<rparr>) = Inr None
   \<and> baseConn (dbconn (snd (resetConn ctxLive \<lparr>dbconn = connOK, trace = []\<rparr>))) = Some 8
   \<and> fst (resetConn ctxLive \<lparr>dbconn = connNoReset, trace = []\<rparr>) = Inr (Some errResetFailed)
   \<and> dbconn (snd (resetConn ctxLive \<lparr>dbconn = connNoReset, trace = []\<rparr>)) = connNoReset"
  using resetConn_swaps_or_keeps
      [of "\<lparr>dbconn = connOK, trace = []\<rparr>" resetOK ctxLive "Some 8" None
          "[EvForceCloseConn (Some 0) (Some 7), EvGetBaseConn (Some 0)]"]
    resetConn_swaps_or_keeps
      [of "\<lparr>dbconn = connNoReset, trace = []\<rparr>" resetFails ctxLive None "Some errResetFailed"
          "[EvForceCloseConn (Some 0) (Some 7), EvGetBaseConn (Some 0)]"]
  by (simp add: connOK_def connNoReset_def resetOK_def resetFails_def)

subsection \<open>One attempt of querySQL\<close>

lemma querySQL_operateFn_deferred:
  assumes "QuerySQL env (trace s) (baseConn (dbconn s)) query args = (Some rows, None)"
    and "rowsErr rows = Some e"
  shows "querySQL_operateFn env query args s =
           (Inr (Some rows, Some e), emit [EvQuerySQL (baseConn (dbconn s)) query args] s)"
  using assms by (simp add: querySQL_operateFn_def Let_def)

lemma querySQL_operateFn_trace:
  "\<exists>rest. trace (snd (querySQL_operateFn env query args s)) =
            trace s @ EvQuerySQL (baseConn (dbconn s)) query args # rest
          \<and> (rest = [] \<or> (\<exists>d. rest = [EvObserve (name (dbconn s)) (sourceID (dbconn s)) d]
                                \<or> rest = [EvObserve (name (dbconn s)) (sourceID (dbconn s)) d,
                                           EvLog LWarn ''query statement too slow''
                                             [FDuration ''cost time'' d]]))
          \<and> (rest = [] \<longleftrightarrow>
               \<not> (\<exists>rows. QuerySQL env (trace s) (baseConn (dbconn s)) query args = (Some rows, None)
                         \<and> rowsErr rows = None))"
  by (auto simp: querySQL_operateFn_def Let_def emit_def split: prod.splits option.splits)

lemma querySQL_observes_iff:
  "(\<exists>ev \<in> set (drop (length (trace s)) (trace (snd (querySQL_operateFn env query args s)))).
       isObserve ev)
   \<longleftrightarrow> (\<exists>rows. QuerySQL env (trace s) (baseConn (dbconn s)) query args = (Some rows, None)
                \<and> rowsErr rows = None)"
proof -
  obtain rest where tr: "trace (snd (querySQL_operateFn env query args s)) =
            trace s @ EvQuerySQL (baseConn (dbconn s)) query args # rest"
    and shape: "rest = [] \<or> (\<exists>d. rest = [EvObserve (name (dbconn s)) (sourceID (dbconn s)) d]
                                \<or> rest = [EvObserve (name (dbconn s)) (sourceID (dbconn s)) d,
                                           EvLog LWarn ''query statement too slow''
                                             [FDuration ''cost time'' d]])"
    and emp: "rest = [] \<longleftrightarrow>
               \<not> (\<exists>rows. QuerySQL env (trace s) (baseConn (dbconn s)) query args = (Some rows, None)
                         \<and> rowsErr rows = None)"
    using querySQL_operateFn_trace [of env query args s] by blast
  have "(\<exists>ev \<in> set (EvQuerySQL (baseConn (dbconn s)) query args # rest). isObserve ev)
          \<longleftrightarrow> rest \<noteq> []"
    using shape by auto
  then show ?thesis
    using emp by (simp add: tr)
qed

text \<open>
  C10. Let the driver call of an attempt of \<^verbatim>\<open>querySQL\<close> return rows and no error, the rows
  carrying the deferred error \<open>e\<close>. Then the attempt is a failed attempt with the error
  \<open>e\<close>, and its only event is the driver call: the histogram is not observed. The retry
  loop hands \<open>e\<close> to the decision function of \<^verbatim>\<open>querySQL\<close>, and goes on to the next
  attempt when that function says yes (and the context is live). In general, an attempt
  observes the histogram exactly when the driver call returns no error and rows without a
  deferred error.
\<close>

theorem querySQL_deferred_error_is_failure:
  assumes "QuerySQL env (trace s) (baseConn (dbconn s)) query args = (Some rows, None)"
    and "rowsErr rows = Some e"
  shows "querySQL_operateFn env query args s =
           (Inr (Some rows, Some e), emit [EvQuerySQL (baseConn (dbconn s)) query args] s)
       \<and> retryLoop ctx (querySQL_params env ctx) (querySQL_operateFn env query args)
             (Suc n) i ret err s =
           (case querySQL_IsRetryableFn env ctx i e
                   (emit [EvQuerySQL (baseConn (dbconn s)) query args] s) of
              (Inl a, s2) \<Rightarrow> (Inl a, s2)
            | (Inr False, s2) \<Rightarrow> (Inr (Some rows, i, Some e), s2)
            | (Inr True, s2) \<Rightarrow>
                (case ctxErr ctx (trace s2) of
                   Some ce \<Rightarrow> (Inr (Some rows, i, Some ce), s2)
                 | None \<Rightarrow>
                     retryLoop ctx (querySQL_params env ctx) (querySQL_operateFn env query args)
                       n (Suc i) (Some rows) (Some e) (emit [EvWait Second] s2)))
       \<and> ((\<exists>ev \<in> set (drop (length (trace s'))
                          (trace (snd (querySQL_operateFn env query args s')))). isObserve ev)
           \<longleftrightarrow> (\<exists>rows'. QuerySQL env (trace s') (baseConn (dbconn s')) query args
                           = (Some rows', None)
                        \<and> rowsErr rows' = None))"
proof -
  have a: "querySQL_operateFn env query args s =
           (Inr (Some rows, Some e), emit [EvQuerySQL (baseConn (dbconn s)) query args] s)"
    using assms by (rule querySQL_operateFn_deferred)
  have d: "retryDuration (querySQL_params env ctx) i = Second"
    by (simp add: retryDuration_def querySQL_params_def)
  have p: "IsRetryableFn (querySQL_params env ctx) = querySQL_IsRetryableFn env ctx"
    by (simp add: querySQL_params_def)
  show ?thesis
    by (simp add: a d p querySQL_observes_iff
          split: prod.splits sum.splits bool.splits option.splits)
qed

theorem querySQL_deferred_error_is_failure_witness:
  "querySQL_operateFn envDeferred ''SELECT 1'' [] \<lparr>dbconn = connOK, trace = []\<rparr> =
     (Inr (Some rowsDeferred, Some errLockWait),
      \<lparr>dbconn = connOK, trace = [EvQuerySQL (Some 7) ''SELECT 1'' []]\<rparr>)"
  using querySQL_deferred_error_is_failure
    [of envDeferred "\<lparr>dbconn = connOK, trace = []\<rparr>" "''SELECT 1''" "[]" rowsDeferred errLockWait]
  by (simp add: envDeferred_def envOK_def rowsDeferred_def connOK_def emit_def)

subsection \<open>The failpoint of executeSQL\<close>

lemma parseDigits_le:
  "parseDigits n s = Some m \<Longrightarrow> n \<le> 65535 \<Longrightarrow> m \<le> 65535"
  by (induction s arbitrary: n) (auto split: option.splits if_splits)

lemma ParseUint_10_16_le: "ParseUint_10_16 s = Some m \<Longrightarrow> m \<le> 65535"
  using parseDigits_le [of 0 s m] by (auto simp: ParseUint_10_16_def split: if_splits)

text \<open>
  C9. Let the failpoint be armed with a string \<open>val\<close> that parses as the 16-bit decimal
  number \<open>code\<close>. An attempt of \<^verbatim>\<open>executeSQL\<close> on a batch of exactly one statement that
  contains \<^verbatim>\<open>CREATE TABLE\<close> fails with the MySQL error whose number is \<open>code\<close> and whose
  message is empty, whatever the real execution returned. An attempt on a batch of any
  other shape does exactly what it does when the failpoint is not armed.
\<close>

theorem failpoint_forces_error:
  assumes "failpoint env = Some val"
    and "ParseUint_10_16 val = Some code"
  shows "(length queries = 1 \<and> Contains (queries ! 0) ''CREATE TABLE'' \<longrightarrow>
            fst (executeSQL_operateFn env queries args s)
              = Inr (None, Some (MySQLError (of_nat code) []))
          \<and> unat (of_nat code :: 16 word) = code)
       \<and> (\<not> (length queries = 1 \<and> Contains (queries ! 0) ''CREATE TABLE'') \<longrightarrow>
            executeSQL_operateFn env queries args s
              = executeSQL_operateFn (env\<lparr>failpoint := None\<rparr>) queries args s)"
proof -
  have "code \<le> 65535"
    using assms(2) by (rule ParseUint_10_16_le)
  then have "unat (of_nat code :: 16 word) = code"
    by (simp add: unat_of_nat take_bit_nat_eq_self)
  then show ?thesis
    using assms
    by (simp add: executeSQL_operateFn_def LoadExecCreateTableFailed_def Let_def
          split: option.splits)
qed

theorem failpoint_forces_error_witness:
  "fst (executeSQL_operateFn envFailpoint [''CREATE TABLE t (a INT)''] []
          \<lparr>dbconn = connOK, trace = []\<rparr>)
     = Inr (None, Some (MySQLError 1213 []))
   \<and> executeSQL_operateFn envFailpoint [''INSERT INTO t VALUES (1)''] []
          \<lparr>dbconn = connOK, trace = []\<rparr>
     = executeSQL_operateFn (envFailpoint\<lparr>failpoint := None\<rparr>) [''INSERT INTO t VALUES (1)''] []
          \<lparr>dbconn = connOK, trace = []\<rparr>"
proof -
  have p: "ParseUint_10_16 ''1213'' = Some 1213"
    by (simp add: ParseUint_10_16_def digitVal_def)
  have f: "failpoint envFailpoint = Some ''1213''"
    by (simp add: envFailpoint_def)
  have c: "Contains ''CREATE TABLE t (a INT)'' ''CREATE TABLE''"
    by (simp add: Contains_def)
  have n: "\<not> Contains ''INSERT INTO t VALUES (1)'' ''CREATE TABLE''"
    by (simp add: Contains_def sublist_code prefix_code)
  show ?thesis
    using failpoint_forces_error [OF f p, of "[''CREATE TABLE t (a INT)'']" "[]"
            "\<lparr>dbconn = connOK, trace = []\<rparr>"]
      failpoint_forces_error [OF f p, of "[''INSERT INTO t VALUES (1)'']" "[]"
            "\<lparr>dbconn = connOK, trace = []\<rparr>"]
      c n
    by simp
qed

subsection \<open>A failed reset ends the operation\<close>

lemma emit_emit: "emit b (emit a s) = emit (a @ b) s"
  by (simp add: emit_def)

lemma trace_emit: "trace (emit evs s) = trace s @ evs"
  by (simp add: emit_def)

lemma dbconn_emit: "dbconn (emit evs s) = dbconn s"
  by (simp add: emit_def)

lemma resetConn_fails:
  assumes "resetBaseConnFn (dbconn s) = Some f"
    and "f ctx (trace s) (baseConn (dbconn s)) = ((h, Some r), evs)"
  shows "resetConn ctx s = (Inr (Some r), emit evs s)"
  using assms by (simp add: resetConn_def)

lemma querySQL_IsRetryableFn_reset_fails:
  assumes "IsConnectionError env e"
    and "resetBaseConnFn (dbconn s) = Some f"
    and "f ctx (trace s) (baseConn (dbconn s)) = ((h, Some r), evs)"
  shows "querySQL_IsRetryableFn env ctx i e s =
           (Inr False,
            emit (evs @ [EvLog LError ''reset connection failed'' [FInt ''retry'' i, FError r]]) s)"
  using assms by (simp add: querySQL_IsRetryableFn_def resetConn_fails emit_emit)

lemma executeSQL_IsRetryableFn_reset_fails:
  assumes "IsConnectionError env e"
    and "resetBaseConnFn (dbconn s) = Some f"
    and "f ctx (trace s @ [EvInc (name (dbconn s)) (sourceID (dbconn s))]) (baseConn (dbconn s))
           = ((h, Some r), evs)"
  shows "executeSQL_IsRetryableFn env ctx i e s =
           (Inr False,
            emit (EvInc (name (dbconn s)) (sourceID (dbconn s)) # evs
                   @ [EvLog LError ''reset connection failed'' [FInt ''retry'' i, FError r]]) s)"
proof -
  let ?s = "emit [EvInc (name (dbconn s)) (sourceID (dbconn s))] s"
  have "resetConn ctx ?s = (Inr (Some r), emit evs ?s)"
    using assms(2,3) resetConn_fails [of ?s f ctx h r evs]
    by (simp add: trace_emit dbconn_emit)
  then show ?thesis
    using assms(1) by (simp add: executeSQL_IsRetryableFn_def Let_def emit_emit)
qed

lemma querySQL_RetryCount: "RetryCount (querySQL_params env ctx) = Suc 9"
  by (simp add: querySQL_params_def)

lemma executeSQL_RetryCount: "RetryCount (executeSQL_params env ctx) = Suc 9"
  by (simp add: executeSQL_params_def)

lemma querySQL_IsRetryableFn_params:
  "IsRetryableFn (querySQL_params env ctx) = querySQL_IsRetryableFn env ctx"
  by (simp add: querySQL_params_def)

lemma executeSQL_IsRetryableFn_params:
  "IsRetryableFn (executeSQL_params env ctx) = executeSQL_IsRetryableFn env ctx"
  by (simp add: executeSQL_params_def)

lemma querySQL_valid:
  assumes "baseConn c \<noteq> None"
  shows "querySQL env ctx (Some c) query args tr =
     (case retryLoop ctx (querySQL_params env ctx) (querySQL_operateFn env query args)
             (Suc 9) 0 None None \<lparr>dbconn = c, trace = tr\<rparr> of
        (Inl a, s) \<Rightarrow> (Inl a, Some (dbconn s), trace s)
      | (Inr (ret, _, Some err), s) \<Rightarrow>
          (Inr (None, Some err), Some (dbconn s),
           trace s @ [EvLog LErrorFilterContextCanceled ''query statement failed after retry''
                        [FError err]])
      | (Inr (None, _, None), s) \<Rightarrow> (Inl Panic, Some (dbconn s), trace s)
      | (Inr (Some rows, _, None), s) \<Rightarrow> (Inr (Some rows, None), Some (dbconn s), trace s))"
  using assms
  by (simp only: querySQL_def ApplyRetryStrategy_def querySQL_RetryCount option.case if_False)

lemma executeSQL_valid:
  assumes "queries \<noteq> []" and "baseConn c \<noteq> None"
  shows "executeSQL env ctx (Some c) queries args tr =
     (case retryLoop ctx (executeSQL_params env ctx) (executeSQL_operateFn env queries args)
             (Suc 9) 0 None None \<lparr>dbconn = c, trace = tr\<rparr> of
        (Inl a, s) \<Rightarrow> (Inl a, Some (dbconn s), trace s)
      | (Inr (_, _, Some err), s) \<Rightarrow>
          (Inr (Some err), Some (dbconn s),
           trace s @ [EvLog LErrorFilterContextCanceled
                        ''execute statements failed after retry'' [FError err]])
      | (Inr (_, _, None), s) \<Rightarrow> (Inr None, Some (dbconn s), trace s))"
  using assms
  by (simp only: executeSQL_def ApplyRetryStrategy_def executeSQL_RetryCount option.case
        if_False length_0_conv)

text \<open>
  C2, as amended. Let an attempt fail with an error \<open>e\<close> that is a connection error, and
  let the recovery function, called next, fail with the error \<open>r\<close> after performing the
  events \<open>evs\<close>. Then the retry loop stops at this attempt, whatever budget is left: no
  further attempt is made and there is no wait. The error returned is \<open>e\<close>, the error of
  the statement; \<open>r\<close> appears only in the log entry "reset connection failed". When the
  attempt is the first one of \<^verbatim>\<open>querySQL\<close> or \<^verbatim>\<open>executeSQL\<close>, the operation returns \<open>e\<close>
  and leaves the connection object as the attempt left it.
\<close>

theorem reset_failure_returns_statement_error:
  assumes "IsConnectionError env e"
    and "resetBaseConnFn (dbconn t) = Some f"
  shows "(querySQL_operateFn env query args s = (Inr (ret', Some e), t)
          \<and> f ctx (trace t) (baseConn (dbconn t)) = ((h, Some r), evs) \<longrightarrow>
            retryLoop ctx (querySQL_params env ctx) (querySQL_operateFn env query args)
                (Suc n) i ret err s
              = (Inr (ret', i, Some e),
                 emit (evs @ [EvLog LError ''reset connection failed''
                                [FInt ''retry'' i, FError r]]) t)
          \<and> (baseConn (dbconn s) \<noteq> None \<longrightarrow>
               querySQL env ctx (Some (dbconn s)) query args (trace s)
                 = (Inr (None, Some e), Some (dbconn t),
                    trace t @ evs
                      @ [EvLog LError ''reset connection failed'' [FInt ''retry'' 0, FError r],
                         EvLog LErrorFilterContextCanceled ''query statement failed after retry''
                           [FError e]])))
       \<and> (executeSQL_operateFn env queries eargs s = (Inr (ret', Some e), t)
          \<and> f ctx (trace t @ [EvInc (name (dbconn t)) (sourceID (dbconn t))])
                (baseConn (dbconn t)) = ((h, Some r), evs) \<longrightarrow>
            retryLoop ctx (executeSQL_params env ctx) (executeSQL_operateFn env queries eargs)
                (Suc n) i ret err s
              = (Inr (ret', i, Some e),
                 emit (EvInc (name (dbconn t)) (sourceID (dbconn t)) # evs
                        @ [EvLog LError ''reset connection failed''
                             [FInt ''retry'' i, FError r]]) t)
          \<and> (queries \<noteq> [] \<and> baseConn (dbconn s) \<noteq> None \<longrightarrow>
               executeSQL env ctx (Some (dbconn s)) queries eargs (trace s)
                 = (Inr (Some e), Some (dbconn t),
                    trace t @ EvInc (name (dbconn t)) (sourceID (dbconn t)) # evs
                      @ [EvLog LError ''reset connection failed'' [FInt ''retry'' 0, FError r],
                         EvLog LErrorFilterContextCanceled
                           ''execute statements failed after retry'' [FError e]])))"
proof -
  have q: "retryLoop ctx (querySQL_params env ctx) (querySQL_operateFn env query args)
                (Suc n) i ret err s
              = (Inr (ret', i, Some e),
                 emit (evs @ [EvLog LError ''reset connection failed''
                                [FInt ''retry'' i, FError r]]) t)"
    if "querySQL_operateFn env query args s = (Inr (ret', Some e), t)"
      and "f ctx (trace t) (baseConn (dbconn t)) = ((h, Some r), evs)"
    for n i ret err
    using that querySQL_IsRetryableFn_reset_fails [OF assms(1,2), of ctx h r evs i]
    by (simp add: querySQL_IsRetryableFn_params)
  have x: "retryLoop ctx (executeSQL_params env ctx) (executeSQL_operateFn env queries eargs)
                (Suc n) i ret err s
              = (Inr (ret', i, Some e),
                 emit (EvInc (name (dbconn t)) (sourceID (dbconn t)) # evs
                        @ [EvLog LError ''reset connection failed''
                             [FInt ''retry'' i, FError r]]) t)"
    if "executeSQL_operateFn env queries eargs s = (Inr (ret', Some e), t)"
      and "f ctx (trace t @ [EvInc (name (dbconn t)) (sourceID (dbconn t))])
                (baseConn (dbconn t)) = ((h, Some r), evs)"
    for n i ret err
    using that executeSQL_IsRetryableFn_reset_fails [OF assms(1,2), of ctx h r evs i]
    by (simp add: executeSQL_IsRetryableFn_params)
  have s: "\<lparr>dbconn = dbconn s, trace = trace s\<rparr> = s"
    by simp
  show ?thesis
    by (auto simp: querySQL_valid executeSQL_valid s q x trace_emit dbconn_emit
          simp del: retryLoop.simps Suc_numeral split: option.splits)
qed

theorem reset_failure_returns_statement_error_witness:
  "querySQL envBadConn ctxLive (Some connNoReset) ''SELECT 1'' [] [] =
     (Inr (None, Some errBadConn), Some connNoReset,
      [EvQuerySQL (Some 7) ''SELECT 1'' [],
       EvForceCloseConn (Some 0) (Some 7), EvGetBaseConn (Some 0),
       EvLog LError ''reset connection failed'' [FInt ''retry'' 0, FError errResetFailed],
       EvLog LErrorFilterContextCanceled ''query statement failed after retry''
         [FError errBadConn]])
   \<and> executeSQL envBadConn ctxLive (Some connNoReset) [''INSERT INTO t VALUES (1)''] [] [] =
     (Inr (Some errBadConn), Some connNoReset,
      [EvExecuteSQL (Some 7) ''worker'' [''INSERT INTO t VALUES (1)''] [],
       EvInc ''worker'' ''mysql-01'',
       EvForceCloseConn (Some 0) (Some 7), EvGetBaseConn (Some 0),
       EvLog LError ''reset connection failed'' [FInt ''retry'' 0, FError errResetFailed],
       EvLog LErrorFilterContextCanceled ''execute statements failed after retry''
         [FError errBadConn]])"
  using reset_failure_returns_statement_error
    [where env = envBadConn and e = errBadConn and f = resetFails and ctx = ctxLive
       and s = "\<lparr>dbconn = connNoReset, trace = []\<rparr>"
       and t = "\<lparr>dbconn = connNoReset, trace = [EvQuerySQL (Some 7) ''SELECT 1'' []]\<rparr>"
       and query = "''SELECT 1''" and args = "[]" and ret' = None
       and h = None and r = errResetFailed
       and evs = "[EvForceCloseConn (Some 0) (Some 7), EvGetBaseConn (Some 0)]"]
    reset_failure_returns_statement_error
    [where env = envBadConn and e = errBadConn and f = resetFails and ctx = ctxLive
       and s = "\<lparr>dbconn = connNoReset, trace = []\<rparr>"
       and t = "\<lparr>dbconn = connNoReset,
                  trace = [EvExecuteSQL (Some 7) ''worker'' [''INSERT INTO t VALUES (1)''] []]\<rparr>"
       and queries = "[''INSERT INTO t VALUES (1)'']" and eargs = "[]" and ret' = None
       and h = None and r = errResetFailed
       and evs = "[EvForceCloseConn (Some 0) (Some 7), EvGetBaseConn (Some 0)]"]
  by (simp add: envBadConn_def envOK_def connNoReset_def resetFails_def
        querySQL_operateFn_def executeSQL_operateFn_def emit_def Let_def)

text \<open>
  C2 as stated fails: the statement fails with the connection error
  \<^verbatim>\<open>invalid connection\<close>, the reset fails with \<^verbatim>\<open>connection refused\<close>, and the operation
  returns the former.
\<close>

theorem reset_failure_counterexample:
  "IsConnectionError envBadConn errBadConn
   \<and> fst (resetConn ctxLive
            \<lparr>dbconn = connNoReset, trace = [EvQuerySQL (Some 7) ''SELECT 1'' []]\<rparr>)
       = Inr (Some errResetFailed)
   \<and> fst (querySQL envBadConn ctxLive (Some connNoReset) ''SELECT 1'' [] [])
       = Inr (None, Some errBadConn)
   \<and> fst (querySQL envBadConn ctxLive (Some connNoReset) ''SELECT 1'' [] [])
       \<noteq> Inr (None, Some errResetFailed)"
  by (simp add: querySQL_valid
        connNoReset_def envBadConn_def envOK_def resetFails_def
        querySQL_operateFn_def querySQL_IsRetryableFn_params querySQL_IsRetryableFn_def
        resetConn_def emit_def errBadConn_def errResetFailed_def Let_def
        del: Suc_numeral)

subsection \<open>createConns\<close>

lemma createConns_loop_cases:
  "\<exists>evs. snd (createConns_loop env tctx baseDB nm sid k conns tr) = tr @ evs
     \<and> ((\<exists>new. fst (createConns_loop env tctx baseDB nm sid k conns tr)
                   = (baseDB, conns @ new, None)
              \<and> length new = k
              \<and> (\<forall>c \<in> set new.
                    name c = nm \<and> sourceID c = sid
                  \<and> resetBaseConnFn c = Some (createConns_resetBaseConnFn env baseDB)
                  \<and> (\<exists>tr0. GetBaseConn env tr0 baseDB = (baseConn c, None)))
              \<and> evs = replicate k (EvGetBaseConn baseDB))
        \<or> (\<exists>err. fst (createConns_loop env tctx baseDB nm sid k conns tr)
                    = (None, [], Some (WithScope err ScopeDownstream))
              \<and> EvClose baseDB \<in> set evs))"
proof (induction k arbitrary: conns tr)
  case 0
  show ?case by simp
next
  case (Suc k)
  obtain h e where g: "GetBaseConn env tr baseDB = (h, e)"
    by (cases "GetBaseConn env tr baseDB")
  show ?case
  proof (cases e)
    case (Some err)
    then show ?thesis
      using g by (simp add: Let_def split: option.splits)
  next
    case None
    let ?c = "\<lparr>name = nm, sourceID = sid, baseConn = h,
               resetBaseConnFn = Some (createConns_resetBaseConnFn env baseDB)\<rparr>"
    let ?r = "createConns_loop env tctx baseDB nm sid k (conns @ [?c]) (tr @ [EvGetBaseConn baseDB])"
    have step: "createConns_loop env tctx baseDB nm sid (Suc k) conns tr = ?r"
      using g None by (simp add: Let_def)
    obtain evs where tr: "snd ?r = (tr @ [EvGetBaseConn baseDB]) @ evs"
      and alt: "(\<exists>new. fst ?r = (baseDB, (conns @ [?c]) @ new, None)
              \<and> length new = k
              \<and> (\<forall>c \<in> set new.
                    name c = nm \<and> sourceID c = sid
                  \<and> resetBaseConnFn c = Some (createConns_resetBaseConnFn env baseDB)
                  \<and> (\<exists>tr0. GetBaseConn env tr0 baseDB = (baseConn c, None)))
              \<and> evs = replicate k (EvGetBaseConn baseDB))
        \<or> (\<exists>err. fst ?r = (None, [], Some (WithScope err ScopeDownstream))
              \<and> EvClose baseDB \<in> set evs)"
      using Suc.IH [of "conns @ [?c]" "tr @ [EvGetBaseConn baseDB]"] by blast
    from alt show ?thesis
    proof
      assume "\<exists>new. fst ?r = (baseDB, (conns @ [?c]) @ new, None)
              \<and> length new = k
              \<and> (\<forall>c \<in> set new.
                    name c = nm \<and> sourceID c = sid
                  \<and> resetBaseConnFn c = Some (createConns_resetBaseConnFn env baseDB)
                  \<and> (\<exists>tr0. GetBaseConn env tr0 baseDB = (baseConn c, None)))
              \<and> evs = replicate k (EvGetBaseConn baseDB)"
      then obtain new where n: "fst ?r = (baseDB, (conns @ [?c]) @ new, None)"
        "length new = k"
        "\<forall>c \<in> set new.
                    name c = nm \<and> sourceID c = sid
                  \<and> resetBaseConnFn c = Some (createConns_resetBaseConnFn env baseDB)
                  \<and> (\<exists>tr0. GetBaseConn env tr0 baseDB = (baseConn c, None))"
        "evs = replicate k (EvGetBaseConn baseDB)"
        by blast
      have c: "\<exists>tr0. GetBaseConn env tr0 baseDB = (baseConn ?c, None)"
        using g None by auto
      have tr': "snd ?r = tr @ EvGetBaseConn baseDB # evs"
        using tr by simp
      have "fst ?r = (baseDB, conns @ (?c # new), None) \<and> length (?c # new) = Suc k
            \<and> (\<forall>c \<in> set (?c # new).
                    name c = nm \<and> sourceID c = sid
                  \<and> resetBaseConnFn c = Some (createConns_resetBaseConnFn env baseDB)
                  \<and> (\<exists>tr0. GetBaseConn env tr0 baseDB = (baseConn c, None)))
            \<and> EvGetBaseConn baseDB # evs = replicate (Suc k) (EvGetBaseConn baseDB)"
        using n c by simp
      then show ?thesis
        unfolding step using tr' by blast
    next
      assume f: "\<exists>err. fst ?r = (None, [], Some (WithScope err ScopeDownstream))
              \<and> EvClose baseDB \<in> set evs"
      have tr': "snd ?r = tr @ EvGetBaseConn baseDB # evs"
        using tr by simp
      have "\<exists>err. fst ?r = (None, [], Some (WithScope err ScopeDownstream))
              \<and> EvClose baseDB \<in> set (EvGetBaseConn baseDB # evs)"
        using f by simp
      then show ?thesis
        unfolding step using tr' by blast
    qed
  qed
qed

lemma createConns_makes:
  assumes "GetDownstreamDB env tr (To cfg) = (baseDB, None)"
    and "makeslice env (tr @ [EvGetDownstreamDB (To cfg)]) (sint workerCount) = None"
  shows "createConns env tctx cfg nm sid workerCount tr =
           (Inr (fst (createConns_loop env tctx baseDB nm sid (nat (sint workerCount)) []
                        (tr @ [EvGetDownstreamDB (To cfg)]))),
            snd (createConns_loop env tctx baseDB nm sid (nat (sint workerCount)) []
                   (tr @ [EvGetDownstreamDB (To cfg)])))"
  using assms by (simp add: createConns_def Let_def split: prod.splits)

text \<open>
  C1, as amended. Let \<open>workerCount\<close> be at least 1 and such that \<^verbatim>\<open>make\<close> can build a
  slice of that capacity: \<open>workerCount\<close> pointers are at most \<open>maxAlloc\<close> bytes, and the
  runtime has the memory for them. Then \<^verbatim>\<open>createConns\<close> returns, and one of two things
  holds. Either it returns the base handle that \<^verbatim>\<open>GetDownstreamDB\<close> gave, no error and
  exactly \<open>workerCount\<close> connections, each with the given name and source id, a handle
  that \<^verbatim>\<open>GetBaseConn\<close> of that base handle returned without error, and the recovery
  function bound to that base handle; it then made exactly \<open>workerCount\<close> handle requests
  and closed nothing. Or it returns no base handle, no connection and an error wrapped with
  the downstream scope: the error of \<^verbatim>\<open>GetDownstreamDB\<close>, in which case nothing else was
  done, or the error of a handle request, in which case the base handle was closed.
\<close>

theorem createConns_all_or_nothing:
  assumes "1 \<le> sint workerCount"
    and "ptrSize * sint workerCount \<le> maxAlloc"
    and "mallocgc env (tr @ [EvGetDownstreamDB (To cfg)]) (nat (ptrSize * sint workerCount))"
  shows "\<exists>evs. snd (createConns env tctx cfg nm sid workerCount tr)
                 = tr @ EvGetDownstreamDB (To cfg) # evs
     \<and> ((\<exists>baseDB conns.
             GetDownstreamDB env tr (To cfg) = (baseDB, None)
           \<and> fst (createConns env tctx cfg nm sid workerCount tr) = Inr (baseDB, conns, None)
           \<and> int (length conns) = sint workerCount
           \<and> (\<forall>c \<in> set conns.
                 name c = nm \<and> sourceID c = sid
               \<and> resetBaseConnFn c = Some (createConns_resetBaseConnFn env baseDB)
               \<and> (\<exists>tr0. GetBaseConn env tr0 baseDB = (baseConn c, None)))
           \<and> evs = replicate (nat (sint workerCount)) (EvGetBaseConn baseDB))
        \<or> (\<exists>err. fst (createConns env tctx cfg nm sid workerCount tr)
                     = Inr (None, [], Some (WithScope err ScopeDownstream))
              \<and> (snd (GetDownstreamDB env tr (To cfg)) = Some err \<and> evs = []
                  \<or> (\<exists>baseDB. GetDownstreamDB env tr (To cfg) = (baseDB, None)
                        \<and> EvClose baseDB \<in> set evs))))"
proof -
  obtain baseDB e where g: "GetDownstreamDB env tr (To cfg) = (baseDB, e)"
    by (cases "GetDownstreamDB env tr (To cfg)")
  show ?thesis
  proof (cases e)
    case (Some err)
    then show ?thesis
      using g by (simp add: createConns_def)
  next
    case None
    let ?r = "createConns_loop env tctx baseDB nm sid (nat (sint workerCount)) []
                (tr @ [EvGetDownstreamDB (To cfg)])"
    have run: "createConns env tctx cfg nm sid workerCount tr = (Inr (fst ?r), snd ?r)"
      using g None assms
      by (intro createConns_makes) (simp_all add: makeslice_def)
    obtain evs where tr: "snd ?r = (tr @ [EvGetDownstreamDB (To cfg)]) @ evs"
      and alt: "(\<exists>new. fst ?r = (baseDB, [] @ new, None)
              \<and> length new = nat (sint workerCount)
              \<and> (\<forall>c \<in> set new.
                    name c = nm \<and> sourceID c = sid
                  \<and> resetBaseConnFn c = Some (createConns_resetBaseConnFn env baseDB)
                  \<and> (\<exists>tr0. GetBaseConn env tr0 baseDB = (baseConn c, None)))
              \<and> evs = replicate (nat (sint workerCount)) (EvGetBaseConn baseDB))
        \<or> (\<exists>err. fst ?r = (None, [], Some (WithScope err ScopeDownstream))
              \<and> EvClose baseDB \<in> set evs)"
      using createConns_loop_cases
        [of env tctx baseDB nm sid "nat (sint workerCount)" "[]" "tr @ [EvGetDownstreamDB (To cfg)]"]
      by blast
    have tr': "snd ?r = tr @ EvGetDownstreamDB (To cfg) # evs"
      using tr by simp
    from alt show ?thesis
    proof (elim disjE exE conjE)
      fix new
      assume a: "fst ?r = (baseDB, [] @ new, None)" "length new = nat (sint workerCount)"
        "\<forall>c \<in> set new.
                    name c = nm \<and> sourceID c = sid
                  \<and> resetBaseConnFn c = Some (createConns_resetBaseConnFn env baseDB)
                  \<and> (\<exists>tr0. GetBaseConn env tr0 baseDB = (baseConn c, None))"
        "evs = replicate (nat (sint workerCount)) (EvGetBaseConn baseDB)"
      have "int (length new) = sint workerCount"
        using a(2) assms(1) by simp
      then have "GetDownstreamDB env tr (To cfg) = (baseDB, None)
           \<and> fst (createConns env tctx cfg nm sid workerCount tr) = Inr (baseDB, new, None)
           \<and> int (length new) = sint workerCount
           \<and> (\<forall>c \<in> set new.
                 name c = nm \<and> sourceID c = sid
               \<and> resetBaseConnFn c = Some (createConns_resetBaseConnFn env baseDB)
               \<and> (\<exists>tr0. GetBaseConn env tr0 baseDB = (baseConn c, None)))
           \<and> evs = replicate (nat (sint workerCount)) (EvGetBaseConn baseDB)"
        using a g None by (simp add: run)
      moreover have "snd (createConns env tctx cfg nm sid workerCount tr)
                 = tr @ EvGetDownstreamDB (To cfg) # evs"
        using tr' by (simp add: run)
      ultimately show ?thesis
        by blast
    next
      fix err
      assume a: "fst ?r = (None, [], Some (WithScope err ScopeDownstream))"
        "EvClose baseDB \<in> set evs"
      have "fst (createConns env tctx cfg nm sid workerCount tr)
                     = Inr (None, [], Some (WithScope err ScopeDownstream))
              \<and> GetDownstreamDB env tr (To cfg) = (baseDB, None)
              \<and> EvClose baseDB \<in> set evs"
        using a g None by (simp add: run)
      moreover have "snd (createConns env tctx cfg nm sid workerCount tr)
                 = tr @ EvGetDownstreamDB (To cfg) # evs"
        using tr' by (simp add: run)
      ultimately show ?thesis
        by blast
    qed
  qed
qed

theorem createConns_all_or_nothing_witness:
  "fst (createConns envOK ctxLive \<lparr>To = ''tidb:4000''\<rparr> ''worker'' ''mysql-01'' 2 []) =
     Inr (Some 0,
          [\<lparr>name = ''worker'', sourceID = ''mysql-01'', baseConn = Some 1,
            resetBaseConnFn = Some (createConns_resetBaseConnFn envOK (Some 0))\<rparr>,
           \<lparr>name = ''worker'', sourceID = ''mysql-01'', baseConn = Some 2,
            resetBaseConnFn = Some (createConns_resetBaseConnFn envOK (Some 0))\<rparr>],
          None)
   \<and> createConns envSecondConnFails ctxLive \<lparr>To = ''tidb:4000''\<rparr> ''worker'' ''mysql-01'' 2 [] =
     (Inr (None, [], Some (WithScope errResetFailed ScopeDownstream)),
      [EvGetDownstreamDB ''tidb:4000'', EvGetBaseConn (Some 0), EvGetBaseConn (Some 0),
       EvClose (Some 0)])"
proof -
  have two: "sint (2 :: GoInt) = 2"
    by simp
  have h: "1 \<le> sint (2 :: GoInt)" "ptrSize * sint (2 :: GoInt) \<le> maxAlloc"
    "mallocgc envOK ([] @ [EvGetDownstreamDB (To \<lparr>To = ''tidb:4000''\<rparr>)])
       (nat (ptrSize * sint (2 :: GoInt)))"
    "mallocgc envSecondConnFails ([] @ [EvGetDownstreamDB (To \<lparr>To = ''tidb:4000''\<rparr>)])
       (nat (ptrSize * sint (2 :: GoInt)))"
    by (simp_all add: two ptrSize_def maxAlloc_def envOK_def envSecondConnFails_def)
  have m: "makeslice envOK [EvGetDownstreamDB ''tidb:4000''] (sint (2 :: GoInt)) = None"
    "makeslice envSecondConnFails [EvGetDownstreamDB ''tidb:4000''] (sint (2 :: GoInt)) = None"
    by (simp_all add: makeslice_def two ptrSize_def maxAlloc_def envOK_def envSecondConnFails_def)
  have g: "GetDownstreamDB envOK [] (To \<lparr>To = ''tidb:4000''\<rparr>) = (Some 0, None)"
    "GetDownstreamDB envSecondConnFails [] (To \<lparr>To = ''tidb:4000''\<rparr>) = (Some 0, None)"
    by (simp_all add: envOK_def envSecondConnFails_def)
  have run: "createConns envOK ctxLive \<lparr>To = ''tidb:4000''\<rparr> ''worker'' ''mysql-01'' 2 [] =
     (Inr (Some 0,
          [\<lparr>name = ''worker'', sourceID = ''mysql-01'', baseConn = Some 1,
            resetBaseConnFn = Some (createConns_resetBaseConnFn envOK (Some 0))\<rparr>,
           \<lparr>name = ''worker'', sourceID = ''mysql-01'', baseConn = Some 2,
            resetBaseConnFn = Some (createConns_resetBaseConnFn envOK (Some 0))\<rparr>],
          None),
      [EvGetDownstreamDB ''tidb:4000'', EvGetBaseConn (Some 0), EvGetBaseConn (Some 0)])"
    "createConns envSecondConnFails ctxLive \<lparr>To = ''tidb:4000''\<rparr> ''worker'' ''mysql-01'' 2 [] =
     (Inr (None, [], Some (WithScope errResetFailed ScopeDownstream)),
      [EvGetDownstreamDB ''tidb:4000'', EvGetBaseConn (Some 0), EvGetBaseConn (Some 0),
       EvClose (Some 0)])"
    using m g
    by (simp_all add: createConns_makes)
       (simp_all add: envOK_def envSecondConnFails_def Let_def numeral_2_eq_2)
  show ?thesis
    using createConns_all_or_nothing
        [OF h(1,2,3), of ctxLive "''worker''" "''mysql-01''"]
      createConns_all_or_nothing
        [OF h(1,2,4), of ctxLive "''worker''" "''mysql-01''"]
    by (simp add: run)
qed

text \<open>
  C1 as stated fails on a \<open>workerCount\<close> too large for \<^verbatim>\<open>make\<close>: with \<open>2 ^ 60\<close>
  workers \<^verbatim>\<open>createConns\<close> obtains the base handle and then panics, so that it returns
  neither the connections nor an error.
\<close>

theorem createConns_huge_counterexample:
  "1 \<le> sint (1152921504606846976 :: GoInt)
   \<and> createConns envOK ctxLive \<lparr>To = ''tidb:4000''\<rparr> ''worker'' ''mysql-01''
         1152921504606846976 []
       = (Inl Panic, [EvGetDownstreamDB ''tidb:4000''])"
  by (simp add: createConns_def makeslice_def ptrSize_def maxAlloc_def envOK_def Let_def)

subsection \<open>Counting attempts\<close>

lemma attempts_append: "attempts (xs @ ys) = attempts xs + attempts ys"
  by (simp add: attempts_def)

lemma attempts_Nil: "attempts [] = 0"
  by (simp add: attempts_def)

lemma attempts_Cons: "attempts (ev # evs) = (if isAttempt ev then 1 else 0) + attempts evs"
  by (simp add: attempts_def)

lemma attempts_emit: "attempts (trace (emit evs s)) = attempts (trace s) + attempts evs"
  by (simp add: emit_def attempts_append)

lemma querySQL_operateFn_frame:
  "dbconn (snd (querySQL_operateFn env query args s)) = dbconn s
   \<and> attempts (trace (snd (querySQL_operateFn env query args s))) = Suc (attempts (trace s))"
  by (auto simp: querySQL_operateFn_def Let_def emit_def attempts_def
        split: prod.splits option.splits)

lemma executeSQL_operateFn_frame:
  "dbconn (snd (executeSQL_operateFn env queries args s)) = dbconn s
   \<and> attempts (trace (snd (executeSQL_operateFn env queries args s))) = Suc (attempts (trace s))"
  by (auto simp: executeSQL_operateFn_def LoadExecCreateTableFailed_def Let_def emit_def
        attempts_def split: prod.splits option.splits sum.splits)

lemma querySQL_IsRetryableFn_retryable:
  assumes "\<not> IsConnectionError env e" and "IsRetryableError env e"
  shows "querySQL_IsRetryableFn env ctx i e s =
           (Inr True, emit [EvLog LWarn ''query statement'' [FInt ''retry'' i, FError e]] s)"
  using assms by (simp add: querySQL_IsRetryableFn_def)

lemma executeSQL_IsRetryableFn_retryable:
  assumes "\<not> IsConnectionError env e" and "IsRetryableError env e"
  shows "executeSQL_IsRetryableFn env ctx i e s =
           (Inr True,
            emit [EvInc (name (dbconn s)) (sourceID (dbconn s)),
                  EvLog LWarn ''execute statements'' [FInt ''retry'' i, FError e]] s)"
  using assms by (simp add: executeSQL_IsRetryableFn_def Let_def emit_emit)

text \<open>
  The loop when every attempt fails and the decision function always says yes without
  making an attempt of its own: it uses up its budget and returns the error of the last
  attempt. \<open>e k\<close> is the error of the attempt made after \<open>k\<close> earlier attempts.
\<close>

lemma retryLoop_exhausts:
  assumes live: "\<forall>tr. ctxErr ctx tr = None"
    and fail: "\<forall>s. dbconn s = c \<longrightarrow>
                 (\<exists>r. fst (operateFn s) = Inr (r, Some (e (attempts (trace s)))))"
    and frame: "\<forall>s. dbconn (snd (operateFn s)) = dbconn s
                 \<and> attempts (trace (snd (operateFn s))) = Suc (attempts (trace s))"
    and yes: "\<forall>i k s. \<exists>evs. IsRetryableFn params i (e k) s = (Inr True, emit evs s)
                 \<and> attempts evs = 0"
  shows "dbconn s = c \<Longrightarrow>
         \<exists>r j s'. retryLoop ctx params operateFn (Suc n) i ret err s
                    = (Inr (r, j, Some (e (attempts (trace s) + n))), s')
                \<and> dbconn s' = c \<and> attempts (trace s') = attempts (trace s) + Suc n"
proof (induction n arbitrary: i ret err s)
  case 0
  obtain r where a: "fst (operateFn s) = Inr (r, Some (e (attempts (trace s))))"
    using fail 0 by blast
  obtain t where t: "operateFn s = (Inr (r, Some (e (attempts (trace s)))), t)"
    using a by (cases "operateFn s") simp
  have ft: "dbconn t = c" "attempts (trace t) = Suc (attempts (trace s))"
    using frame [rule_format, of s] 0 by (simp_all add: t)
  obtain evs where d: "IsRetryableFn params i (e (attempts (trace s))) t = (Inr True, emit evs t)"
    and z: "attempts evs = 0"
    using yes by blast
  show ?case
    using live ft z by (simp add: t d attempts_emit dbconn_emit attempts_Nil attempts_Cons)
next
  case (Suc n)
  obtain r where a: "fst (operateFn s) = Inr (r, Some (e (attempts (trace s))))"
    using fail Suc.prems by blast
  obtain t where t: "operateFn s = (Inr (r, Some (e (attempts (trace s)))), t)"
    using a by (cases "operateFn s") simp
  have ft: "dbconn t = c" "attempts (trace t) = Suc (attempts (trace s))"
    using frame [rule_format, of s] Suc.prems by (simp_all add: t)
  obtain evs where d: "IsRetryableFn params i (e (attempts (trace s))) t = (Inr True, emit evs t)"
    and z: "attempts evs = 0"
    using yes by blast
  let ?u = "emit [EvWait (retryDuration params i)] (emit evs t)"
  have u: "dbconn ?u = c" "attempts (trace ?u) = Suc (attempts (trace s))"
    using ft z by (simp_all add: attempts_emit dbconn_emit attempts_Nil attempts_Cons)
  have step: "retryLoop ctx params operateFn (Suc (Suc n)) i ret err s
                = retryLoop ctx params operateFn (Suc n) (Suc i) r
                    (Some (e (attempts (trace s)))) ?u"
    using live by (subst retryLoop.simps) (simp add: t d del: retryLoop.simps)
  show ?case
    using Suc.IH [OF u(1), of "Suc i" r "Some (e (attempts (trace s)))"]
    unfolding step u(2) by simp
qed

text \<open>
  C4. Let the context stay live, the connection be valid, and every attempt fail with an
  error that is not a connection error and is retryable (\<open>e k\<close> is the error of the
  attempt made after \<open>k\<close> earlier attempts in the trace). Then \<^verbatim>\<open>querySQL\<close> returns after
  exactly 10 attempts with the error of the tenth attempt, the connection object
  unchanged; and so does \<^verbatim>\<open>executeSQL\<close> on a non-empty statement list.
\<close>

theorem retryable_error_on_every_attempt:
  assumes "\<forall>tr. ctxErr ctx tr = None"
    and "baseConn c \<noteq> None"
    and "\<forall>k. \<not> IsConnectionError env (e k) \<and> IsRetryableError env (e k)"
  shows "((\<forall>s. dbconn s = c \<longrightarrow>
             (\<exists>r. fst (querySQL_operateFn env query args s)
                     = Inr (r, Some (e (attempts (trace s)))))) \<longrightarrow>
          (\<exists>tr'. querySQL env ctx (Some c) query args tr
                    = (Inr (None, Some (e (attempts tr + 9))), Some c, tr')
                \<and> attempts tr' = attempts tr + 10))
       \<and> (queries \<noteq> []
          \<and> (\<forall>s. dbconn s = c \<longrightarrow>
                (\<exists>r. fst (executeSQL_operateFn env queries eargs s)
                        = Inr (r, Some (e (attempts (trace s)))))) \<longrightarrow>
          (\<exists>tr'. executeSQL env ctx (Some c) queries eargs tr
                    = (Inr (Some (e (attempts tr + 9))), Some c, tr')
                \<and> attempts tr' = attempts tr + 10))"
proof (intro conjI impI)
  assume fail: "\<forall>s. dbconn s = c \<longrightarrow>
             (\<exists>r. fst (querySQL_operateFn env query args s)
                     = Inr (r, Some (e (attempts (trace s)))))"
  have yes: "\<forall>i k s. \<exists>evs. IsRetryableFn (querySQL_params env ctx) i (e k) s
                              = (Inr True, emit evs s) \<and> attempts evs = 0"
  proof (intro allI)
    fix i k s
    show "\<exists>evs. IsRetryableFn (querySQL_params env ctx) i (e k) s
                              = (Inr True, emit evs s) \<and> attempts evs = 0"
      using assms(3)
      by (intro exI [of _ "[EvLog LWarn ''query statement'' [FInt ''retry'' i, FError (e k)]]"])
        (simp add: querySQL_IsRetryableFn_params querySQL_IsRetryableFn_retryable
           attempts_Nil attempts_Cons)
  qed
  obtain r j s' where run:
    "retryLoop ctx (querySQL_params env ctx) (querySQL_operateFn env query args)
        (Suc 9) 0 None None \<lparr>dbconn = c, trace = tr\<rparr>
       = (Inr (r, j, Some (e (attempts tr + 9))), s')"
    and s': "dbconn s' = c" "attempts (trace s') = attempts tr + Suc 9"
    using retryLoop_exhausts
      [where ctx = ctx and c = c and e = e and n = 9 and s = "\<lparr>dbconn = c, trace = tr\<rparr>"
         and operateFn = "querySQL_operateFn env query args"
         and params = "querySQL_params env ctx" and i = 0 and ret = None and err = None,
       OF assms(1) fail _ yes]
      querySQL_operateFn_frame
    by auto
  show "\<exists>tr'. querySQL env ctx (Some c) query args tr
                    = (Inr (None, Some (e (attempts tr + 9))), Some c, tr')
                \<and> attempts tr' = attempts tr + 10"
    using s' by (simp add: querySQL_valid [OF assms(2)] run attempts_append attempts_Nil
                   attempts_Cons del: retryLoop.simps Suc_numeral split: option.splits)
next
  assume h: "queries \<noteq> []
          \<and> (\<forall>s. dbconn s = c \<longrightarrow>
                (\<exists>r. fst (executeSQL_operateFn env queries eargs s)
                        = Inr (r, Some (e (attempts (trace s))))))"
  then have ne: "queries \<noteq> []"
    and fail: "\<forall>s. dbconn s = c \<longrightarrow>
                (\<exists>r. fst (executeSQL_operateFn env queries eargs s)
                        = Inr (r, Some (e (attempts (trace s)))))"
    by simp_all
  have yes: "\<forall>i k s. \<exists>evs. IsRetryableFn (executeSQL_params env ctx) i (e k) s
                              = (Inr True, emit evs s) \<and> attempts evs = 0"
  proof (intro allI)
    fix i k s
    show "\<exists>evs. IsRetryableFn (executeSQL_params env ctx) i (e k) s
                              = (Inr True, emit evs s) \<and> attempts evs = 0"
      using assms(3)
      by (intro exI [of _ "[EvInc (name (dbconn s)) (sourceID (dbconn s)),
                            EvLog LWarn ''execute statements'' [FInt ''retry'' i, FError (e k)]]"])
        (simp add: executeSQL_IsRetryableFn_params executeSQL_IsRetryableFn_retryable
           attempts_Nil attempts_Cons)
  qed
  obtain r j s' where run:
    "retryLoop ctx (executeSQL_params env ctx) (executeSQL_operateFn env queries eargs)
        (Suc 9) 0 None None \<lparr>dbconn = c, trace = tr\<rparr>
       = (Inr (r, j, Some (e (attempts tr + 9))), s')"
    and s': "dbconn s' = c" "attempts (trace s') = attempts tr + Suc 9"
    using retryLoop_exhausts
      [where ctx = ctx and c = c and e = e and n = 9 and s = "\<lparr>dbconn = c, trace = tr\<rparr>"
         and operateFn = "executeSQL_operateFn env queries eargs"
         and params = "executeSQL_params env ctx" and i = 0 and ret = None and err = None,
       OF assms(1) fail _ yes]
      executeSQL_operateFn_frame
    by auto
  show "\<exists>tr'. executeSQL env ctx (Some c) queries eargs tr
                    = (Inr (Some (e (attempts tr + 9))), Some c, tr')
                \<and> attempts tr' = attempts tr + 10"
    using s' by (simp add: executeSQL_valid [OF ne assms(2)] run attempts_append attempts_Nil
                   attempts_Cons del: retryLoop.simps Suc_numeral split: option.splits)
qed

theorem retryable_error_on_every_attempt_witness:
  "(\<exists>tr'. querySQL envLockWait ctxLive (Some connOK) ''SELECT 1'' [] []
             = (Inr (None, Some errLockWait), Some connOK, tr')
         \<and> attempts tr' = 10)
   \<and> (\<exists>tr'. executeSQL envLockWait ctxLive (Some connOK) [''INSERT INTO t VALUES (1)''] [] []
             = (Inr (Some errLockWait), Some connOK, tr')
         \<and> attempts tr' = 10)"
  using retryable_error_on_every_attempt
    [where ctx = ctxLive and c = connOK and env = envLockWait and e = "\<lambda>k. errLockWait"
       and query = "''SELECT 1''" and args = "[]" and tr = "[]"
       and queries = "[''INSERT INTO t VALUES (1)'']" and eargs = "[]"]
  by (simp add: ctxLive_def connOK_def envLockWait_def envOK_def errLockWait_def errBadConn_def
        querySQL_operateFn_def executeSQL_operateFn_def Let_def attempts_Nil)

subsection \<open>The execution error counter\<close>

lemma incs_append: "incs nm sid (xs @ ys) = incs nm sid xs + incs nm sid ys"
  by (simp add: incs_def)

lemma incs_Nil: "incs nm sid [] = 0"
  by (simp add: incs_def)

lemma incs_Cons: "incs nm sid (ev # evs) = (if ev = EvInc nm sid then 1 else 0) + incs nm sid evs"
  by (simp add: incs_def)

lemma incs_emit: "incs nm sid (trace (emit evs s)) = incs nm sid (trace s) + incs nm sid evs"
  by (simp add: emit_def incs_append)

lemma quiet_events:
  "\<forall>ev \<in> set evs. \<not> isAttempt ev \<and> ev \<noteq> EvInc nm sid \<Longrightarrow>
     attempts evs = 0 \<and> incs nm sid evs = 0"
  by (induction evs) (simp_all add: attempts_Nil attempts_Cons incs_Nil incs_Cons)

lemma executeSQL_operateFn_incs:
  "incs nm sid (trace (snd (executeSQL_operateFn env queries args s))) = incs nm sid (trace s)"
  by (auto simp: executeSQL_operateFn_def LoadExecCreateTableFailed_def Let_def emit_def
        incs_append incs_Nil incs_Cons split: prod.splits option.splits sum.splits)

lemma executeSQL_operateFn_result:
  "fst (executeSQL_operateFn env queries args s) = Inl Exit
   \<or> fst (executeSQL_operateFn env queries args s) = Inr (None, None)
   \<or> (\<exists>e. fst (executeSQL_operateFn env queries args s) = Inr (None, Some e))"
  by (auto simp: executeSQL_operateFn_def LoadExecCreateTableFailed_def Let_def
        split: prod.splits option.splits sum.splits)

text \<open>
  What \<^verbatim>\<open>resetConn\<close> leaves alone when the recovery function is quiet: it makes no attempt
  and does not touch the counter.
\<close>

lemma resetConn_quiet:
  assumes quiet: "\<forall>f tctx tr h. fo = Some f \<longrightarrow>
                    (\<forall>ev \<in> set (snd (f tctx tr h)). \<not> isAttempt ev \<and> ev \<noteq> EvInc nm sid)"
    and k: "name (dbconn s) = nm \<and> sourceID (dbconn s) = sid \<and> resetBaseConnFn (dbconn s) = fo"
  shows "(fst (resetConn ctx s) = Inl Panic \<or> (\<exists>x. fst (resetConn ctx s) = Inr x))
       \<and> name (dbconn (snd (resetConn ctx s))) = nm
       \<and> sourceID (dbconn (snd (resetConn ctx s))) = sid
       \<and> resetBaseConnFn (dbconn (snd (resetConn ctx s))) = fo
       \<and> attempts (trace (snd (resetConn ctx s))) = attempts (trace s)
       \<and> incs nm sid (trace (snd (resetConn ctx s))) = incs nm sid (trace s)"
proof (cases fo)
  case None
  then show ?thesis
    using k by (simp add: resetConn_def)
next
  case (Some f)
  obtain h e evs where r: "f ctx (trace s) (baseConn (dbconn s)) = ((h, e), evs)"
    by (cases "f ctx (trace s) (baseConn (dbconn s))") auto
  have "\<forall>ev \<in> set evs. \<not> isAttempt ev \<and> ev \<noteq> EvInc nm sid"
    using quiet Some r by (metis snd_conv)
  then have z: "attempts evs = 0 \<and> incs nm sid evs = 0"
    by (rule quiet_events)
  show ?thesis
    using k Some z
    by (cases e) (simp_all add: resetConn_def r attempts_emit incs_emit dbconn_emit)
qed

lemma executeSQL_IsRetryableFn_counts:
  assumes quiet: "\<forall>f tctx tr h. fo = Some f \<longrightarrow>
                    (\<forall>ev \<in> set (snd (f tctx tr h)). \<not> isAttempt ev \<and> ev \<noteq> EvInc nm sid)"
    and k: "name (dbconn s) = nm \<and> sourceID (dbconn s) = sid \<and> resetBaseConnFn (dbconn s) = fo"
  shows "(fst (executeSQL_IsRetryableFn env ctx i e s) = Inl Panic
          \<or> (\<exists>b. fst (executeSQL_IsRetryableFn env ctx i e s) = Inr b))
       \<and> name (dbconn (snd (executeSQL_IsRetryableFn env ctx i e s))) = nm
       \<and> sourceID (dbconn (snd (executeSQL_IsRetryableFn env ctx i e s))) = sid
       \<and> resetBaseConnFn (dbconn (snd (executeSQL_IsRetryableFn env ctx i e s))) = fo
       \<and> attempts (trace (snd (executeSQL_IsRetryableFn env ctx i e s))) = attempts (trace s)
       \<and> incs nm sid (trace (snd (executeSQL_IsRetryableFn env ctx i e s)))
           = Suc (incs nm sid (trace s))"
proof -
  let ?t = "emit [EvInc (name (dbconn s)) (sourceID (dbconn s))] s"
  have kt: "name (dbconn ?t) = nm \<and> sourceID (dbconn ?t) = sid \<and> resetBaseConnFn (dbconn ?t) = fo"
    using k by (simp add: dbconn_emit)
  have ct: "attempts (trace ?t) = attempts (trace s)"
    "incs nm sid (trace ?t) = Suc (incs nm sid (trace s))"
    using k by (simp_all add: attempts_emit incs_emit attempts_Nil attempts_Cons incs_Nil incs_Cons)
  note r = resetConn_quiet [where ctx = ctx, OF quiet kt]
  show ?thesis
  proof (cases "IsConnectionError env e")
    case True
    obtain x u where x: "resetConn ctx ?t = (x, u)"
      by (cases "resetConn ctx ?t")
    then show ?thesis
      using True r ct
      by (auto simp: executeSQL_IsRetryableFn_def Let_def attempts_emit incs_emit dbconn_emit
            attempts_Nil attempts_Cons incs_Nil incs_Cons split: option.splits)
  next
    case False
    then show ?thesis
      using kt ct
      by (auto simp: executeSQL_IsRetryableFn_def Let_def attempts_emit incs_emit dbconn_emit
            attempts_Nil attempts_Cons incs_Nil incs_Cons)
  qed
qed

text \<open>
  The loop of \<^verbatim>\<open>executeSQL\<close>: every attempt it makes is followed by one increment of the
  counter, except a last attempt that did not fail.
\<close>

lemma executeSQL_loop_counts:
  assumes quiet: "\<forall>f tctx tr h. fo = Some f \<longrightarrow>
                    (\<forall>ev \<in> set (snd (f tctx tr h)). \<not> isAttempt ev \<and> ev \<noteq> EvInc nm sid)"
  shows "name (dbconn s) = nm \<and> sourceID (dbconn s) = sid \<and> resetBaseConnFn (dbconn s) = fo \<Longrightarrow>
         n = 0 \<longrightarrow> err \<noteq> None \<Longrightarrow>
         incs nm sid (trace (snd (retryLoop ctx (executeSQL_params env ctx)
                                    (executeSQL_operateFn env queries args) n i ret err s)))
           + attempts (trace s)
           + notFailed (fst (retryLoop ctx (executeSQL_params env ctx)
                               (executeSQL_operateFn env queries args) n i ret err s))
         = incs nm sid (trace s)
           + attempts (trace (snd (retryLoop ctx (executeSQL_params env ctx)
                                     (executeSQL_operateFn env queries args) n i ret err s)))"
proof (induction n arbitrary: i ret err s)
  case 0
  then show ?case by auto
next
  case (Suc n)
  let ?op = "executeSQL_operateFn env queries args"
  let ?p = "executeSQL_params env ctx"
  obtain x t where op: "?op s = (x, t)"
    by (cases "?op s")
  have ft: "dbconn t = dbconn s" "attempts (trace t) = Suc (attempts (trace s))"
    "incs nm sid (trace t) = incs nm sid (trace s)"
    using executeSQL_operateFn_frame [of env queries args s]
      executeSQL_operateFn_incs [of nm sid env queries args s]
    by (simp_all add: op)
  have kt: "name (dbconn t) = nm \<and> sourceID (dbconn t) = sid \<and> resetBaseConnFn (dbconn t) = fo"
    using Suc.prems(1) ft(1) by simp
  consider (exit) "x = Inl Exit" | (ok) "x = Inr (None, None)"
    | (fail) e where "x = Inr (None, Some e)"
    using executeSQL_operateFn_result [of env queries args s] by (auto simp: op)
  then show ?case
  proof cases
    case exit
    then show ?thesis
      using ft by (simp add: op)
  next
    case ok
    then show ?thesis
      using ft by (simp add: op)
  next
    case fail
    obtain b u where d: "executeSQL_IsRetryableFn env ctx i e t = (b, u)"
      by (cases "executeSQL_IsRetryableFn env ctx i e t")
    have fu: "b = Inl Panic \<or> (\<exists>y. b = Inr y)"
      "name (dbconn u) = nm \<and> sourceID (dbconn u) = sid \<and> resetBaseConnFn (dbconn u) = fo"
      "attempts (trace u) = Suc (attempts (trace s))"
      "incs nm sid (trace u) = Suc (incs nm sid (trace s))"
      using executeSQL_IsRetryableFn_counts [where env = env and ctx = ctx and i = i and e = e,
              OF quiet kt] ft
      by (simp_all add: d)
    let ?v = "emit [EvWait (retryDuration ?p i)] u"
    have fv: "name (dbconn ?v) = nm \<and> sourceID (dbconn ?v) = sid \<and> resetBaseConnFn (dbconn ?v) = fo"
      "attempts (trace ?v) = Suc (attempts (trace s))"
      "incs nm sid (trace ?v) = Suc (incs nm sid (trace s))"
      using fu by (simp_all add: dbconn_emit attempts_emit incs_emit attempts_Nil attempts_Cons
                     incs_Nil incs_Cons)
    have ih: "incs nm sid (trace (snd (retryLoop ctx ?p ?op n (Suc i) None (Some e) ?v)))
           + attempts (trace ?v)
           + notFailed (fst (retryLoop ctx ?p ?op n (Suc i) None (Some e) ?v))
         = incs nm sid (trace ?v)
           + attempts (trace (snd (retryLoop ctx ?p ?op n (Suc i) None (Some e) ?v)))"
      using Suc.IH [OF fv(1), of "Some e" "Suc i" None] by simp
    show ?thesis
    proof (cases b)
      case (Inl a)
      then show ?thesis
        using fu fail by (simp add: op d executeSQL_IsRetryableFn_params)
    next
      case (Inr y)
      show ?thesis
      proof (cases y)
        case False
        then show ?thesis
          using fu fail Inr by (simp add: op d executeSQL_IsRetryableFn_params)
      next
        case True
        show ?thesis
        proof (cases "ctxErr ctx (trace u)")
          case (Some ce)
          then show ?thesis
            using fu fail Inr True by (simp add: op d executeSQL_IsRetryableFn_params)
        next
          case None
          then show ?thesis
            using ih fv fail Inr True
            by (simp add: op d executeSQL_IsRetryableFn_params del: retryLoop.simps
                  add: retryLoop.simps(2))
        qed
      qed
    qed
  qed
qed
lemma executeSQL_IsRetryableFn_trace:
  "\<exists>rest. trace (snd (executeSQL_IsRetryableFn env ctx i err s))
            = trace s @ EvInc (name (dbconn s)) (sourceID (dbconn s)) # rest"
  by (auto simp: executeSQL_IsRetryableFn_def resetConn_def Let_def emit_def
        split: option.splits prod.splits sum.splits)

text \<open>
  C8. Let the recovery function of the connection be quiet: it makes no attempt and does
  not touch the counter labelled with the connection's name and source id. Then, for
  \<^verbatim>\<open>executeSQL\<close> on a valid connection and a non-empty statement list, the number of
  increments of that counter during the call is the number of attempts made, less one when
  the last attempt did not fail (the operation succeeded, or the process exited in the
  attempt): one increment for every failed attempt, retried or not. And every call of the
  decision function, whatever the error and however it is classified, first increments the
  counter; what the classification then does (the reset, the log entries) comes after it
  in the trace and holds no further increment.
\<close>

theorem executeSQL_counts_failed_attempts:
  assumes "\<forall>f tctx tr h. resetBaseConnFn c = Some f \<longrightarrow>
             (\<forall>ev \<in> set (snd (f tctx tr h)).
                \<not> isAttempt ev \<and> ev \<noteq> EvInc (name c) (sourceID c))"
    and "queries \<noteq> []"
    and "baseConn c \<noteq> None"
  shows "(let r = executeSQL env ctx (Some c) queries args tr
          in incs (name c) (sourceID c) (snd (snd r)) + attempts tr
               + (if fst r = Inr None \<or> fst r = Inl Exit then 1 else 0)
             = incs (name c) (sourceID c) tr + attempts (snd (snd r)))
       \<and> (dbconn s = c \<longrightarrow>
            (\<exists>rest. trace (snd (executeSQL_IsRetryableFn env ctx i err s))
                      = trace s @ EvInc (name c) (sourceID c) # rest
                  \<and> incs (name c) (sourceID c) rest = 0))"
proof (intro conjI impI)
  let ?nm = "name c" and ?sid = "sourceID c"
  let ?s = "\<lparr>dbconn = c, trace = tr\<rparr>"
  let ?l = "retryLoop ctx (executeSQL_params env ctx) (executeSQL_operateFn env queries args)
              (Suc 9) 0 None None ?s"
  have loop: "incs ?nm ?sid (trace (snd ?l)) + attempts tr + notFailed (fst ?l)
                = incs ?nm ?sid tr + attempts (trace (snd ?l))"
    using executeSQL_loop_counts
      [where fo = "resetBaseConnFn c" and nm = ?nm and sid = ?sid and s = ?s and n = "Suc 9"
         and err = None and ctx = ctx and env = env and queries = queries and args = args
         and i = 0 and ret = None, OF assms(1)]
    by simp
  obtain x u where l: "?l = (x, u)"
    by (cases ?l)
  show "let r = executeSQL env ctx (Some c) queries args tr
          in incs ?nm ?sid (snd (snd r)) + attempts tr
               + (if fst r = Inr None \<or> fst r = Inl Exit then 1 else 0)
             = incs ?nm ?sid tr + attempts (snd (snd r))"
  proof (cases x)
    case (Inl a)
    then show ?thesis
      using loop
      by (cases a) (simp_all add: executeSQL_valid [OF assms(2,3)] l Let_def
                      del: retryLoop.simps Suc_numeral)
  next
    case (Inr y)
    obtain r j e where y: "y = (r, j, e)"
      by (cases y)
    show ?thesis
      using loop Inr y
      by (cases e) (simp_all add: executeSQL_valid [OF assms(2,3)] l Let_def
                      incs_append attempts_append incs_Nil incs_Cons attempts_Nil attempts_Cons
                      del: retryLoop.simps Suc_numeral)
  qed
next
  assume c: "dbconn s = c"
  obtain rest where t: "trace (snd (executeSQL_IsRetryableFn env ctx i err s))
            = trace s @ EvInc (name (dbconn s)) (sourceID (dbconn s)) # rest"
    using executeSQL_IsRetryableFn_trace by blast
  have "incs (name c) (sourceID c) (trace (snd (executeSQL_IsRetryableFn env ctx i err s)))
           = Suc (incs (name c) (sourceID c) (trace s))"
    using executeSQL_IsRetryableFn_counts
      [where fo = "resetBaseConnFn c" and nm = "name c" and sid = "sourceID c" and s = s
         and env = env and ctx = ctx and i = i and e = err, OF assms(1)] c
    by simp
  then have "incs (name c) (sourceID c) rest = 0"
    using c by (simp add: t incs_append incs_Cons)
  then show "\<exists>rest. trace (snd (executeSQL_IsRetryableFn env ctx i err s))
                      = trace s @ EvInc (name c) (sourceID c) # rest
                  \<and> incs (name c) (sourceID c) rest = 0"
    using t c by auto
qed

theorem executeSQL_counts_failed_attempts_witness:
  "fst (executeSQL envFlaky ctxLive (Some connPool) [''INSERT INTO t VALUES (1)''] [] []) = Inr None
   \<and> attempts (snd (snd (executeSQL envFlaky ctxLive (Some connPool)
                           [''INSERT INTO t VALUES (1)''] [] []))) = 3
   \<and> incs ''worker'' ''mysql-01''
        (snd (snd (executeSQL envFlaky ctxLive (Some connPool)
                     [''INSERT INTO t VALUES (1)''] [] []))) = 2"
proof -
  have v: "baseConn connPool \<noteq> None" "[''INSERT INTO t VALUES (1)''] \<noteq> []"
    by (simp_all add: connPool_def)
  have q: "\<forall>f tctx tr h. resetBaseConnFn connPool = Some f \<longrightarrow>
             (\<forall>ev \<in> set (snd (f tctx tr h)).
                \<not> isAttempt ev \<and> ev \<noteq> EvInc (name connPool) (sourceID connPool))"
    by (simp add: connPool_def createConns_resetBaseConnFn_def Let_def split: option.splits)
  have run: "fst (executeSQL envFlaky ctxLive (Some connPool) [''INSERT INTO t VALUES (1)''] [] [])
               = Inr None
    \<and> attempts (snd (snd (executeSQL envFlaky ctxLive (Some connPool)
                           [''INSERT INTO t VALUES (1)''] [] []))) = 3"
    unfolding executeSQL_valid [OF v(2,1)]
    by (simp add: executeSQL_IsRetryableFn_params
          executeSQL_IsRetryableFn_def executeSQL_operateFn_def envFlaky_def envOK_def
          connPool_def ctxLive_def errLockWait_def errBadConn_def emit_def Let_def
          attempts_Nil attempts_Cons attempts_append eval_nat_numeral del: Suc_numeral)
  show ?thesis
    using executeSQL_counts_failed_attempts
      [OF q v(2,1), of envFlaky ctxLive "[]" "[]"] run
    by (simp add: Let_def incs_Nil attempts_Nil connPool_def)
qed

subsection \<open>The waits between the attempts\<close>

lemma waits_Nil: "waits [] = []"
  by (simp add: waits_def)

lemma waits_Cons: "waits (ev # evs) = waitOf ev @ waits evs"
  by (simp add: waits_def)

lemma waits_append: "waits (xs @ ys) = waits xs @ waits ys"
  by (simp add: waits_def)

lemma silent_events:
  "\<forall>ev \<in> set evs. \<not> isAttempt ev \<and> waitOf ev = [] \<Longrightarrow> attempts evs = 0 \<and> waits evs = []"
  by (induction evs) (simp_all add: attempts_Nil attempts_Cons waits_Nil waits_Cons)

lemma querySQL_operateFn_events:
  "\<exists>evs. trace (snd (querySQL_operateFn env query args s)) = trace s @ evs
         \<and> waits evs = [] \<and> attempts evs = 1"
  by (auto simp: querySQL_operateFn_def Let_def emit_def waits_Nil waits_Cons attempts_Nil
        attempts_Cons split: prod.splits option.splits)

lemma executeSQL_operateFn_events:
  "\<exists>evs. trace (snd (executeSQL_operateFn env queries args s)) = trace s @ evs
         \<and> waits evs = [] \<and> attempts evs = 1"
  by (auto simp: executeSQL_operateFn_def LoadExecCreateTableFailed_def Let_def emit_def
        waits_Nil waits_Cons attempts_Nil attempts_Cons
        split: prod.splits option.splits sum.splits)

lemma resetConn_events:
  assumes silent: "\<forall>f tctx tr h. fo = Some f \<longrightarrow>
                    (\<forall>ev \<in> set (snd (f tctx tr h)). \<not> isAttempt ev \<and> waitOf ev = [])"
    and k: "resetBaseConnFn (dbconn s) = fo"
  shows "resetBaseConnFn (dbconn (snd (resetConn ctx s))) = fo
       \<and> (\<exists>evs. trace (snd (resetConn ctx s)) = trace s @ evs
                \<and> waits evs = [] \<and> attempts evs = 0)"
proof (cases fo)
  case None
  then show ?thesis
    using k by (simp add: resetConn_def waits_Nil attempts_Nil)
next
  case (Some f)
  obtain h e evs where r: "f ctx (trace s) (baseConn (dbconn s)) = ((h, e), evs)"
    by (cases "f ctx (trace s) (baseConn (dbconn s))") auto
  have "\<forall>ev \<in> set evs. \<not> isAttempt ev \<and> waitOf ev = []"
    using silent Some r by (metis snd_conv)
  then have z: "attempts evs = 0 \<and> waits evs = []"
    by (rule silent_events)
  show ?thesis
    using k Some z
    by (cases e) (simp_all add: resetConn_def r trace_emit dbconn_emit)
qed

lemma querySQL_IsRetryableFn_events:
  assumes silent: "\<forall>f tctx tr h. fo = Some f \<longrightarrow>
                    (\<forall>ev \<in> set (snd (f tctx tr h)). \<not> isAttempt ev \<and> waitOf ev = [])"
    and k: "resetBaseConnFn (dbconn s) = fo"
  shows "resetBaseConnFn (dbconn (snd (querySQL_IsRetryableFn env ctx i e s))) = fo
       \<and> (\<exists>evs. trace (snd (querySQL_IsRetryableFn env ctx i e s)) = trace s @ evs
                \<and> waits evs = [] \<and> attempts evs = 0)"
proof (cases "IsConnectionError env e")
  case True
  obtain x u where x: "resetConn ctx s = (x, u)"
    by (cases "resetConn ctx s")
  obtain evs where u: "resetBaseConnFn (dbconn u) = fo" "trace u = trace s @ evs"
    "waits evs = []" "attempts evs = 0"
    using resetConn_events [OF silent k, of ctx] by (auto simp: x)
  show ?thesis
  proof (cases x)
    case (Inl a)
    then show ?thesis
      using True u by (simp add: querySQL_IsRetryableFn_def x)
  next
    case (Inr y)
    show ?thesis
    proof (cases y)
      case None
      then show ?thesis
        using True u Inr by (simp add: querySQL_IsRetryableFn_def x)
    next
      case (Some r)
      let ?l = "[EvLog LError ''reset connection failed'' [FInt ''retry'' i, FError r]]"
      have "trace (emit ?l u) = trace s @ (evs @ ?l) \<and> waits (evs @ ?l) = []
            \<and> attempts (evs @ ?l) = 0"
        using u by (simp add: trace_emit waits_append attempts_append waits_Cons waits_Nil
                      attempts_Cons attempts_Nil)
      then show ?thesis
        using True u(1) Inr Some
        by (simp only: querySQL_IsRetryableFn_def x if_True sum.case option.case prod.case
              snd_conv dbconn_emit) blast
    qed
  qed
next
  case False
  let ?l = "[EvLog LWarn ''query statement'' [FInt ''retry'' i, FError e]]"
  have "trace (emit ?l s) = trace s @ ?l \<and> waits ?l = [] \<and> attempts ?l = 0"
    by (simp add: trace_emit waits_Cons waits_Nil attempts_Cons attempts_Nil)
  moreover have "trace s = trace s @ [] \<and> waits [] = [] \<and> attempts [] = 0"
    by (simp add: waits_Nil attempts_Nil)
  ultimately show ?thesis
    using False k
    by (cases "IsRetryableError env e")
       (simp_all only: querySQL_IsRetryableFn_def if_False if_True snd_conv dbconn_emit, blast+)
qed

lemma executeSQL_IsRetryableFn_events:
  assumes silent: "\<forall>f tctx tr h. fo = Some f \<longrightarrow>
                    (\<forall>ev \<in> set (snd (f tctx tr h)). \<not> isAttempt ev \<and> waitOf ev = [])"
    and k: "resetBaseConnFn (dbconn s) = fo"
  shows "resetBaseConnFn (dbconn (snd (executeSQL_IsRetryableFn env ctx i e s))) = fo
       \<and> (\<exists>evs. trace (snd (executeSQL_IsRetryableFn env ctx i e s)) = trace s @ evs
                \<and> waits evs = [] \<and> attempts evs = 0)"
proof -
  let ?inc = "[EvInc (name (dbconn s)) (sourceID (dbconn s))]"
  let ?t = "emit ?inc s"
  have kt: "resetBaseConnFn (dbconn ?t) = fo"
    using k by (simp add: dbconn_emit)
  have tt: "trace ?t = trace s @ ?inc" "waits ?inc = []" "attempts ?inc = 0"
    by (simp_all add: trace_emit waits_Cons waits_Nil attempts_Cons attempts_Nil)
  have ext: "\<exists>evs. trace w = trace s @ evs \<and> waits evs = [] \<and> attempts evs = 0"
    if "trace w = trace ?t @ evs'" "waits evs' = []" "attempts evs' = 0" for w evs'
    using that tt
    by (intro exI [of _ "?inc @ evs'"])
       (simp add: waits_Cons waits_Nil attempts_Cons attempts_Nil)
  show ?thesis
  proof (cases "IsConnectionError env e")
    case True
    obtain x u where x: "resetConn ctx ?t = (x, u)"
      by (cases "resetConn ctx ?t")
    obtain evs where u: "resetBaseConnFn (dbconn u) = fo" "trace u = trace ?t @ evs"
      "waits evs = []" "attempts evs = 0"
      using resetConn_events [OF silent kt, of ctx] by (auto simp: x)
    show ?thesis
    proof (cases x)
      case (Inl a)
      then show ?thesis
        using True u(1) ext [OF u(2,3,4)]
        by (simp add: executeSQL_IsRetryableFn_def Let_def x)
    next
      case (Inr y)
      show ?thesis
      proof (cases y)
        case None
        then show ?thesis
          using True u(1) ext [OF u(2,3,4)] Inr
          by (simp add: executeSQL_IsRetryableFn_def Let_def x)
      next
        case (Some r)
        let ?l = "[EvLog LError ''reset connection failed'' [FInt ''retry'' i, FError r]]"
        have "trace (emit ?l u) = trace ?t @ (evs @ ?l)" "waits (evs @ ?l) = []"
          "attempts (evs @ ?l) = 0"
          using u by (simp_all add: trace_emit waits_append attempts_append waits_Cons waits_Nil
                        attempts_Cons attempts_Nil)
        then have "\<exists>evs. trace (emit ?l u) = trace s @ evs \<and> waits evs = [] \<and> attempts evs = 0"
          by (rule ext)
        then show ?thesis
          using True u(1) Inr Some
          by (simp add: executeSQL_IsRetryableFn_def Let_def x dbconn_emit)
      qed
    qed
  next
    case False
    let ?l = "[EvLog LWarn ''execute statements'' [FInt ''retry'' i, FError e]]"
    have "trace (emit ?l ?t) = trace ?t @ ?l" "waits ?l = []" "attempts ?l = 0"
      by (simp_all add: trace_emit waits_Cons waits_Nil attempts_Cons attempts_Nil)
    then have a: "\<exists>evs. trace (emit ?l ?t) = trace s @ evs \<and> waits evs = [] \<and> attempts evs = 0"
      by (rule ext)
    have "trace ?t = trace ?t @ []" "waits [] = []" "attempts [] = 0"
      by (simp_all add: waits_Nil attempts_Nil)
    then have b: "\<exists>evs. trace ?t = trace s @ evs \<and> waits evs = [] \<and> attempts evs = 0"
      by (rule ext)
    show ?thesis
      using False kt a b
      by (cases "IsRetryableError env e")
         (simp_all add: executeSQL_IsRetryableFn_def Let_def dbconn_emit)
  qed
qed
text \<open>
  The loop, when neither the attempts nor the decision function wait and each attempt is
  one attempt: the waits of the loop started at index \<open>i\<close> are the delays of the indices
  \<open>i, i + 1, ...\<close> in this order, one after each attempt but possibly the last, and there
  are at most as many attempts as the budget. \<open>K\<close> is an invariant of the state.
\<close>

lemma retryLoop_waits:
  assumes op: "\<forall>s. K s \<longrightarrow> K (snd (operateFn s))
                 \<and> (\<exists>evs. trace (snd (operateFn s)) = trace s @ evs
                          \<and> waits evs = [] \<and> attempts evs = 1)"
    and dec: "\<forall>i e s. K s \<longrightarrow> K (snd (IsRetryableFn params i e s))
                 \<and> (\<exists>evs. trace (snd (IsRetryableFn params i e s)) = trace s @ evs
                          \<and> waits evs = [] \<and> attempts evs = 0)"
    and em: "\<forall>evs s. K s \<longrightarrow> K (emit evs s)"
  shows "K s \<Longrightarrow>
         \<exists>evs k. trace (snd (retryLoop ctx params operateFn n i ret err s)) = trace s @ evs
                \<and> waits evs = map (retryDuration params) [i..<i + k]
                \<and> k \<le> attempts evs \<and> attempts evs \<le> Suc k \<and> attempts evs \<le> n
                \<and> (0 < n \<longrightarrow> 1 \<le> attempts evs)"
proof (induction n arbitrary: i ret err s)
  case 0
  show ?case
    by (intro exI [of _ "[]"] exI [of _ 0]) (simp add: waits_Nil attempts_Nil)
next
  case (Suc n)
  have stop: "\<exists>evs k. trace w = trace s @ evs
                \<and> waits evs = map (retryDuration params) [i..<i + k]
                \<and> k \<le> attempts evs \<and> attempts evs \<le> Suc k \<and> attempts evs \<le> Suc n
                \<and> (0 < Suc n \<longrightarrow> 1 \<le> attempts evs)"
    if "trace w = trace s @ evs0" "waits evs0 = []" "attempts evs0 = 1" for w evs0
    using that by (intro exI [of _ evs0] exI [of _ 0]) simp
  obtain x t where x: "operateFn s = (x, t)"
    by (cases "operateFn s")
  obtain ea where t: "K t" "trace t = trace s @ ea" "waits ea = []" "attempts ea = 1"
    using op Suc.prems by (auto simp: x dest!: spec [of _ s])
  show ?case
  proof (cases x)
    case (Inl a)
    then show ?thesis
      using stop [OF t(2,3,4)] by (simp add: x)
  next
    case (Inr y)
    obtain r eo where y: "y = (r, eo)"
      by (cases y)
    show ?thesis
    proof (cases eo)
      case None
      then show ?thesis
        using stop [OF t(2,3,4)] Inr y by (simp add: x)
    next
      case (Some e)
      obtain b u where d: "IsRetryableFn params i e t = (b, u)"
        by (cases "IsRetryableFn params i e t")
      obtain eb where u: "K u" "trace u = trace t @ eb" "waits eb = []" "attempts eb = 0"
        using dec t(1) by (auto simp: d dest!: spec [of _ i] spec [of _ e] spec [of _ t])
      have tu: "trace u = trace s @ (ea @ eb)" "waits (ea @ eb) = []" "attempts (ea @ eb) = 1"
        using t u by (simp_all add: waits_append attempts_append)
      show ?thesis
      proof (cases b)
        case (Inl a)
        then show ?thesis
          using stop [OF tu] Inr y Some by (simp add: x d)
      next
        case yes: (Inr c)
        show ?thesis
        proof (cases c)
          case False
          then show ?thesis
            using stop [OF tu] Inr y Some yes by (simp add: x d)
        next
          case True
          show ?thesis
          proof (cases "ctxErr ctx (trace u)")
            case cancelled: (Some ce)
            then show ?thesis
              using stop [OF tu] Inr y Some yes True by (simp add: x d)
          next
            case None
            let ?w = "[EvWait (retryDuration params i)]"
            let ?v = "emit ?w u"
            let ?l = "retryLoop ctx params operateFn n (Suc i) r (Some e) ?v"
            have step: "retryLoop ctx params operateFn (Suc n) i ret err s = ?l"
              using Inr y Some yes True None by (simp add: x d)
            have kv: "K ?v"
              using em u(1) by blast
            obtain evs k where ih: "trace (snd ?l) = trace ?v @ evs"
              "waits evs = map (retryDuration params) [Suc i..<Suc i + k]"
              "k \<le> attempts evs" "attempts evs \<le> Suc k" "attempts evs \<le> n"
              using Suc.IH [OF kv, of "Suc i" r "Some e"] by blast
            let ?all = "(ea @ eb) @ ?w @ evs"
            have a: "trace (snd ?l) = trace s @ ?all"
              using ih(1) tu(1) by (simp add: trace_emit)
            have u1: "[i..<i + Suc k] = i # [Suc i..<Suc i + k]"
              by (subst upt_rec) simp
            have "waits ?all = retryDuration params i # waits evs"
              using tu(2) by (simp add: waits_append waits_Cons waits_Nil)
            then have b: "waits ?all = map (retryDuration params) [i..<i + Suc k]"
              by (simp only: ih(2) u1 list.map)
            have c: "attempts ?all = Suc (attempts evs)"
              using tu(3) by (simp add: attempts_append attempts_Cons attempts_Nil)
            show ?thesis
              unfolding step
              using a b c ih(3,4,5)
              by (intro exI [of _ ?all] exI [of _ "Suc k"]) simp
          qed
        qed
      qed
    qed
  qed
qed

lemma waits_Stable:
  "map (retryDuration (querySQL_params env ctx)) [i..<i + k] = replicate k Second"
  by (induction k)
     (simp_all add: retryDuration_def querySQL_params_def replicate_append_same)

lemma waits_LinearIncrease:
  "map (retryDuration (executeSQL_params env ctx)) [0..<k]
     = map (\<lambda>j. (j + 1) * (2 * Second)) [0..<k]"
  by (simp add: retryDuration_def executeSQL_params_def)

lemma sorted_LinearIncrease: "sorted (map (\<lambda>j. (j + 1) * (2 * Second)) [0..<k])"
  by (induction k) (simp_all add: sorted_append)

text \<open>
  C5. \<^verbatim>\<open>querySQL\<close> retries with 10 attempts, a first delay of one second and the strategy
  \<^emph>\<open>Stable\<close>; \<^verbatim>\<open>executeSQL\<close> with 10 attempts, a first delay of two seconds and the
  strategy \<^emph>\<open>LinearIncrease\<close>. On a valid connection whose recovery function neither waits
  nor makes an attempt, a call of \<^verbatim>\<open>querySQL\<close> makes between 1 and 10 attempts, and every
  wait it makes is one second long; a call of \<^verbatim>\<open>executeSQL\<close> on a non-empty statement list
  makes between 1 and 10 attempts, and its waits are, in order, 1, 2, 3, ... times two
  seconds, so that they never decrease. In both there is one wait after each attempt, but
  possibly the last.
\<close>

theorem retry_delays_of_operations:
  assumes "\<forall>f tctx tr h. resetBaseConnFn c = Some f \<longrightarrow>
             (\<forall>ev \<in> set (snd (f tctx tr h)). \<not> isAttempt ev \<and> waitOf ev = [])"
    and "baseConn c \<noteq> None"
  shows "RetryCount (querySQL_params env ctx) = 10
       \<and> FirstRetryDuration (querySQL_params env ctx) = Second
       \<and> BackoffStrategy (querySQL_params env ctx) = Stable
       \<and> (\<exists>evs k. snd (snd (querySQL env ctx (Some c) query args tr)) = tr @ evs
                \<and> waits evs = replicate k Second
                \<and> k \<le> attempts evs \<and> attempts evs \<le> Suc k
                \<and> 1 \<le> attempts evs \<and> attempts evs \<le> 10)
       \<and> RetryCount (executeSQL_params env ctx) = 10
       \<and> FirstRetryDuration (executeSQL_params env ctx) = 2 * Second
       \<and> BackoffStrategy (executeSQL_params env ctx) = LinearIncrease
       \<and> (queries \<noteq> [] \<longrightarrow>
            (\<exists>evs k. snd (snd (executeSQL env ctx (Some c) queries eargs tr)) = tr @ evs
                  \<and> waits evs = map (\<lambda>j. (j + 1) * (2 * Second)) [0..<k]
                  \<and> sorted (waits evs)
                  \<and> k \<le> attempts evs \<and> attempts evs \<le> Suc k
                  \<and> 1 \<le> attempts evs \<and> attempts evs \<le> 10))"
proof -
  let ?K = "\<lambda>s. resetBaseConnFn (dbconn s) = resetBaseConnFn c"
  let ?s = "\<lparr>dbconn = c, trace = tr\<rparr>"
  have ks: "?K ?s"
    by simp
  have em: "\<forall>evs s. ?K s \<longrightarrow> ?K (emit evs s)"
    by (simp add: dbconn_emit)
  have q: "\<exists>evs k. snd (snd (querySQL env ctx (Some c) query args tr)) = tr @ evs
                \<and> waits evs = replicate k Second
                \<and> k \<le> attempts evs \<and> attempts evs \<le> Suc k
                \<and> 1 \<le> attempts evs \<and> attempts evs \<le> 10"
  proof -
    let ?op = "querySQL_operateFn env query args"
    let ?p = "querySQL_params env ctx"
    let ?l = "retryLoop ctx ?p ?op (Suc 9) 0 None None ?s"
    have op: "\<forall>s. ?K s \<longrightarrow> ?K (snd (?op s))
                 \<and> (\<exists>evs. trace (snd (?op s)) = trace s @ evs
                          \<and> waits evs = [] \<and> attempts evs = 1)"
      using querySQL_operateFn_frame [of env query args]
        querySQL_operateFn_events [of env query args]
      by simp
    have dec: "\<forall>i e s. ?K s \<longrightarrow> ?K (snd (IsRetryableFn ?p i e s))
                 \<and> (\<exists>evs. trace (snd (IsRetryableFn ?p i e s)) = trace s @ evs
                          \<and> waits evs = [] \<and> attempts evs = 0)"
      using querySQL_IsRetryableFn_events [OF assms(1), of _ env ctx]
      by (simp add: querySQL_IsRetryableFn_params)
    obtain evs k where l: "trace (snd ?l) = tr @ evs"
      "waits evs = map (retryDuration ?p) [0..<0 + k]"
      "k \<le> attempts evs" "attempts evs \<le> Suc k" "attempts evs \<le> Suc 9" "1 \<le> attempts evs"
      using retryLoop_waits [where K = ?K and s = ?s and n = "Suc 9" and i = 0 and ctx = ctx
              and ret = None and err = None, OF op dec em ks]
      by auto
    have w: "waits evs = replicate k Second"
      using l(2) by (simp only: waits_Stable)
    obtain x u where xu: "?l = (x, u)"
      by (cases ?l)
    have tu: "trace u = tr @ evs"
      using l(1) unfolding xu by simp
    let ?f = "\<lambda>e. [EvLog LErrorFilterContextCanceled ''query statement failed after retry''
                       [FError e]]"
    have "snd (snd (querySQL env ctx (Some c) query args tr)) = tr @ evs
          \<or> (\<exists>e. snd (snd (querySQL env ctx (Some c) query args tr)) = tr @ (evs @ ?f e))"
      using tu
      by (simp add: querySQL_valid [OF assms(2)] xu del: retryLoop.simps Suc_numeral
            split: sum.splits prod.splits option.splits)
    then show ?thesis
    proof
      assume "snd (snd (querySQL env ctx (Some c) query args tr)) = tr @ evs"
      then show ?thesis
        using w l(3,4,5,6) by (intro exI [of _ evs] exI [of _ k]) simp
    next
      assume "\<exists>e. snd (snd (querySQL env ctx (Some c) query args tr)) = tr @ (evs @ ?f e)"
      then obtain e where "snd (snd (querySQL env ctx (Some c) query args tr)) = tr @ (evs @ ?f e)"
        by blast
      then show ?thesis
        using w l(3,4,5,6)
        by (intro exI [of _ "evs @ ?f e"] exI [of _ k])
           (simp add: waits_append waits_Cons waits_Nil attempts_append attempts_Cons
              attempts_Nil)
    qed
  qed
  have x: "\<exists>evs k. snd (snd (executeSQL env ctx (Some c) queries eargs tr)) = tr @ evs
                  \<and> waits evs = map (\<lambda>j. (j + 1) * (2 * Second)) [0..<k]
                  \<and> sorted (waits evs)
                  \<and> k \<le> attempts evs \<and> attempts evs \<le> Suc k
                  \<and> 1 \<le> attempts evs \<and> attempts evs \<le> 10"
    if ne: "queries \<noteq> []"
  proof -
    let ?op = "executeSQL_operateFn env queries eargs"
    let ?p = "executeSQL_params env ctx"
    let ?l = "retryLoop ctx ?p ?op (Suc 9) 0 None None ?s"
    have op: "\<forall>s. ?K s \<longrightarrow> ?K (snd (?op s))
                 \<and> (\<exists>evs. trace (snd (?op s)) = trace s @ evs
                          \<and> waits evs = [] \<and> attempts evs = 1)"
      using executeSQL_operateFn_frame [of env queries eargs]
        executeSQL_operateFn_events [of env queries eargs]
      by simp
    have dec: "\<forall>i e s. ?K s \<longrightarrow> ?K (snd (IsRetryableFn ?p i e s))
                 \<and> (\<exists>evs. trace (snd (IsRetryableFn ?p i e s)) = trace s @ evs
                          \<and> waits evs = [] \<and> attempts evs = 0)"
      using executeSQL_IsRetryableFn_events [OF assms(1), of _ env ctx]
      by (simp add: executeSQL_IsRetryableFn_params)
    obtain evs k where l: "trace (snd ?l) = tr @ evs"
      "waits evs = map (retryDuration ?p) [0..<0 + k]"
      "k \<le> attempts evs" "attempts evs \<le> Suc k" "attempts evs \<le> Suc 9" "1 \<le> attempts evs"
      using retryLoop_waits [where K = ?K and s = ?s and n = "Suc 9" and i = 0 and ctx = ctx
              and ret = None and err = None, OF op dec em ks]
      by auto
    have w: "waits evs = map (\<lambda>j. (j + 1) * (2 * Second)) [0..<k]"
      using l(2) by (simp only: waits_LinearIncrease add_0)
    have so: "sorted (waits evs)"
      unfolding w by (rule sorted_LinearIncrease)
    obtain x u where xu: "?l = (x, u)"
      by (cases ?l)
    have tu: "trace u = tr @ evs"
      using l(1) unfolding xu by simp
    let ?f = "\<lambda>e. [EvLog LErrorFilterContextCanceled ''execute statements failed after retry''
                       [FError e]]"
    have "snd (snd (executeSQL env ctx (Some c) queries eargs tr)) = tr @ evs
          \<or> (\<exists>e. snd (snd (executeSQL env ctx (Some c) queries eargs tr)) = tr @ (evs @ ?f e))"
      using tu
      by (simp add: executeSQL_valid [OF ne assms(2)] xu del: retryLoop.simps Suc_numeral
            split: sum.splits prod.splits option.splits)
    then show ?thesis
    proof
      assume "snd (snd (executeSQL env ctx (Some c) queries eargs tr)) = tr @ evs"
      then show ?thesis
        using w so l(3,4,5,6) by (intro exI [of _ evs] exI [of _ k]) simp
    next
      assume "\<exists>e. snd (snd (executeSQL env ctx (Some c) queries eargs tr)) = tr @ (evs @ ?f e)"
      then obtain e where
        "snd (snd (executeSQL env ctx (Some c) queries eargs tr)) = tr @ (evs @ ?f e)"
        by blast
      then show ?thesis
        using w so l(3,4,5,6)
        by (intro exI [of _ "evs @ ?f e"] exI [of _ k])
           (simp add: waits_append waits_Cons waits_Nil attempts_append attempts_Cons
              attempts_Nil)
    qed
  qed
  show ?thesis
    using q x by (simp add: querySQL_params_def executeSQL_params_def)
qed
theorem retry_delays_of_operations_witness:
  "waits (snd (snd (querySQL envFlakyQuery ctxLive (Some connPool) ''SELECT 1'' [] [])))
     = [Second, Second]
   \<and> attempts (snd (snd (querySQL envFlakyQuery ctxLive (Some connPool) ''SELECT 1'' [] []))) = 3
   \<and> waits (snd (snd (executeSQL envFlaky ctxLive (Some connPool)
                         [''INSERT INTO t VALUES (1)''] [] [])))
     = [2 * Second, 4 * Second]
   \<and> attempts (snd (snd (executeSQL envFlaky ctxLive (Some connPool)
                            [''INSERT INTO t VALUES (1)''] [] []))) = 3"
proof -
  have v: "baseConn connPool \<noteq> None" "[''INSERT INTO t VALUES (1)''] \<noteq> []"
    by (simp_all add: connPool_def)
  have q: "\<forall>f tctx tr h. resetBaseConnFn connPool = Some f \<longrightarrow>
             (\<forall>ev \<in> set (snd (f tctx tr h)). \<not> isAttempt ev \<and> waitOf ev = [])"
    by (simp add: connPool_def createConns_resetBaseConnFn_def Let_def split: option.splits)
  have d: "retryDuration (executeSQL_params env ctx) 0 = 2 * Second"
    "retryDuration (executeSQL_params env ctx) (Suc 0) = 4 * Second"
    "retryDuration (querySQL_params env ctx) i = Second" for env ctx i
    by (simp_all add: retryDuration_def executeSQL_params_def querySQL_params_def)
  have runq: "waits (snd (snd (querySQL envFlakyQuery ctxLive (Some connPool) ''SELECT 1'' [] [])))
     = [Second, Second]
   \<and> attempts (snd (snd (querySQL envFlakyQuery ctxLive (Some connPool) ''SELECT 1'' [] []))) = 3"
    unfolding querySQL_valid [OF v(1)]
    by (simp add: d querySQL_IsRetryableFn_params
          querySQL_IsRetryableFn_def querySQL_operateFn_def envFlakyQuery_def envOK_def
          connPool_def ctxLive_def errLockWait_def errBadConn_def rowsOK_def emit_def Let_def
          attempts_Nil attempts_Cons attempts_append waits_Nil waits_Cons waits_append
          eval_nat_numeral del: Suc_numeral)
  have runx: "waits (snd (snd (executeSQL envFlaky ctxLive (Some connPool)
                         [''INSERT INTO t VALUES (1)''] [] [])))
     = [2 * Second, 4 * Second]
   \<and> attempts (snd (snd (executeSQL envFlaky ctxLive (Some connPool)
                            [''INSERT INTO t VALUES (1)''] [] []))) = 3"
    unfolding executeSQL_valid [OF v(2,1)]
    by (simp add: d executeSQL_IsRetryableFn_params
          executeSQL_IsRetryableFn_def executeSQL_operateFn_def envFlaky_def envOK_def
          connPool_def ctxLive_def errLockWait_def errBadConn_def emit_def Let_def
          attempts_Nil attempts_Cons attempts_append waits_Nil waits_Cons waits_append
          eval_nat_numeral del: Suc_numeral)
  show ?thesis
    using retry_delays_of_operations
      [OF q v(1), of envFlakyQuery ctxLive "''SELECT 1''" "[]" "[]"
         "[''INSERT INTO t VALUES (1)'']" "[]"]
      runq runx
    by simp
qed

end
